theory Spec2Isabelle
  imports Main "HOL-Library.Word"
begin

section \<open>Error codes, enumerations and control-path inputs\<close>

text \<open>
  The kernel error numbers that \<^verbatim>\<open>crypto.c\<close> and \<^verbatim>\<open>peer.c\<close> return (negated, or wrapped
  by \<^verbatim>\<open>ERR_PTR\<close>). An \<^verbatim>\<open>int\<close> return value is \<open>RET_OK\<close> for 0 and \<open>RET_ERR e\<close> for
  \<^verbatim>\<open>-e\<close>. The specification's kinds map onto them as: out-of-memory = \<open>ENOMEM\<close>,
  invalid-argument = \<open>EINVAL\<close>, unsupported = \<open>EOPNOTSUPP\<close>, no-key = \<open>ENOENT\<close>; the
  source returns \<open>EINVAL\<close> for family-changed as well.
\<close>

datatype errno = ENOENT | ENOMEM | EINVAL | EOPNOTSUPP

datatype ret = RET_OK | RET_ERR errno

text \<open>
  The enumerations of \<^verbatim>\<open>uapi/linux/ovpn_dco.h\<close>. An object of a C enumeration type can
  hold a value that is none of the enumerators (every \<^verbatim>\<open>switch\<close> of the source has a
  \<^verbatim>\<open>default\<close> branch for it): the last constructor of each type stands for those values.
\<close>

datatype ovpn_key_slot =
    OVPN_KEY_SLOT_PRIMARY
  | OVPN_KEY_SLOT_SECONDARY
  | OVPN_KEY_SLOT_INVALID nat

datatype ovpn_crypto_families =
    OVPN_CRYPTO_FAMILY_UNDEF
  | OVPN_CRYPTO_FAMILY_AEAD
  | OVPN_CRYPTO_FAMILY_CBC_HMAC
  | OVPN_CRYPTO_FAMILY_UNKNOWN nat

datatype ovpn_cipher_alg =
    OVPN_CIPHER_ALG_AES_GCM
  | OVPN_CIPHER_ALG_AES_CBC
  | OVPN_CIPHER_ALG_UNKNOWN nat

record ovpn_key_direction =
  cipher_key :: "8 word list"
  nonce_tail :: "8 word list"

record ovpn_key_config =
  cipher_alg :: ovpn_cipher_alg
  key_id :: "32 word"
  encrypt :: ovpn_key_direction
  decrypt :: ovpn_key_direction

record ovpn_peer_key_reset =
  slot :: ovpn_key_slot
  crypto_family :: ovpn_crypto_families
  remote_peer_id :: "32 word"
  key :: ovpn_key_config

section \<open>Key slots and their memory\<close>

text \<open>
  A \<^verbatim>\<open>const struct ovpn_crypto_ops *\<close>: the address of a cipher family's dispatch table.
  The source names one table, \<^verbatim>\<open>ovpn_aead_ops\<close> (the line returning \<^verbatim>\<open>&ovpn_chm_ops\<close> is
  commented out); \<open>ovpn_ops_at n\<close> is any other address the pointer type admits.
\<close>

datatype ovpn_crypto_ops_ptr = ovpn_aead_ops | ovpn_ops_at nat

text \<open>
  \<^verbatim>\<open>struct ovpn_crypto_key_slot\<close>: the dispatch table, the \<^verbatim>\<open>kref\<close> counter, the two
  identifiers and the key material of both directions.
\<close>

record ovpn_crypto_key_slot =
  ks_ops :: ovpn_crypto_ops_ptr
  ks_refcount :: int
  ks_key_id :: "32 word"
  ks_remote_peer_id :: "32 word"
  ks_encrypt :: ovpn_key_direction
  ks_decrypt :: ovpn_key_direction

text \<open>
  The memory that holds key slots. A pointer to a key slot is an index into \<open>ks_heap\<close>;
  a cell is \<open>None\<close> once the slot has been destroyed. \<open>rcu_pending\<close> lists the slots
  handed to \<^verbatim>\<open>call_rcu\<close> with \<^verbatim>\<open>ovpn_ks_destroy_rcu\<close>, in the order of the calls. An
  allocation takes the cell after the last one, so a fresh address never aliases a
  live or a destroyed slot.
\<close>

record ks_mem =
  ks_heap :: "ovpn_crypto_key_slot option list"
  rcu_pending :: "nat list"

definition ks_at :: "ks_mem \<Rightarrow> nat \<Rightarrow> ovpn_crypto_key_slot option" where
  "ks_at m a = (if a < length (ks_heap m) then ks_heap m ! a else None)"

definition ks_alloc :: "ks_mem \<Rightarrow> ovpn_crypto_key_slot \<Rightarrow> nat \<times> ks_mem" where
  "ks_alloc m ks = (length (ks_heap m), m\<lparr>ks_heap := ks_heap m @ [Some ks]\<rparr>)"

definition ks_store :: "ks_mem \<Rightarrow> nat \<Rightarrow> ovpn_crypto_key_slot \<Rightarrow> ks_mem" where
  "ks_store m a ks = m\<lparr>ks_heap := (ks_heap m)[a := Some ks]\<rparr>"

text \<open>
  The dispatch tables in memory: \<open>tab p kc\<close> is what the \<^verbatim>\<open>new\<close> member of the table at
  \<open>p\<close> returns for \<open>kc\<close>, an \<^verbatim>\<open>ERR_PTR\<close> (\<open>Inl\<close>) or the slot it built (\<open>Inr\<close>). The tables
  are defined in \<^verbatim>\<open>aead.c\<close>, so they are a parameter of everything that calls through them.
\<close>

type_synonym ops_tables = "ovpn_crypto_ops_ptr \<Rightarrow> ovpn_key_config \<Rightarrow> errno + ovpn_crypto_key_slot"

text \<open>\<^verbatim>\<open>ovpn_ks_new\<close>: \<^verbatim>\<open>return ops->new(kc);\<close> The slot built lands in a fresh cell.\<close>

definition ovpn_ks_new ::
  "ops_tables \<Rightarrow> ovpn_crypto_ops_ptr \<Rightarrow> ovpn_key_config \<Rightarrow> ks_mem \<Rightarrow> errno + (nat \<times> ks_mem)" where
  "ovpn_ks_new tab ops kc m =
     (case tab ops kc of
        Inl e \<Rightarrow> Inl e
      | Inr ks \<Rightarrow> Inr (ks_alloc m ks))"

text \<open>
  \<^verbatim>\<open>ovpn_ks_destroy_rcu\<close>: \<^verbatim>\<open>ks->ops->destroy(ks)\<close>, which releases the contexts and the
  slot's memory.
\<close>

definition ovpn_ks_destroy_rcu :: "ks_mem \<Rightarrow> nat \<Rightarrow> ks_mem" where
  "ovpn_ks_destroy_rcu m a = m\<lparr>ks_heap := (ks_heap m)[a := None]\<rparr>"

text \<open>\<^verbatim>\<open>ovpn_crypto_key_slot_release\<close>: \<^verbatim>\<open>call_rcu(&ks->rcu, ovpn_ks_destroy_rcu)\<close>.\<close>

definition ovpn_crypto_key_slot_release :: "ks_mem \<Rightarrow> nat \<Rightarrow> ks_mem" where
  "ovpn_crypto_key_slot_release m a = m\<lparr>rcu_pending := rcu_pending m @ [a]\<rparr>"

text \<open>
  Modelled from the spec: \<^verbatim>\<open>ovpn_crypto_key_slot_put\<close> is an inline function of
  \<^verbatim>\<open>crypto.h\<close>, which is not among the sources. Section 4.2: "the reader reference on a
  KeySlot is a counted handle. Removing the slot from CryptoState decrements that count;
  reaching zero schedules a deferred destructor". The release function it schedules
  through is \<^verbatim>\<open>ovpn_crypto_key_slot_release\<close> of \<^verbatim>\<open>crypto.c\<close>. \<open>None\<close>: the pointer is
  dangling (the slot has been destroyed), which the C code cannot survive.
\<close>

definition ovpn_crypto_key_slot_put :: "ks_mem \<Rightarrow> nat \<Rightarrow> ks_mem option" where
  "ovpn_crypto_key_slot_put m a =
     (case ks_at m a of
        None \<Rightarrow> None
      | Some ks \<Rightarrow>
          (let m' = ks_store m a (ks\<lparr>ks_refcount := ks_refcount ks - 1\<rparr>)
           in Some (if ks_refcount ks - 1 = 0 then ovpn_crypto_key_slot_release m' a else m')))"

text \<open>
  The end of a grace period: every callback queued by \<^verbatim>\<open>call_rcu\<close> runs, in order.
\<close>

definition rcu_grace_period :: "ks_mem \<Rightarrow> ks_mem" where
  "rcu_grace_period m =
     (fold (\<lambda>a m'. ovpn_ks_destroy_rcu m' a) (rcu_pending m) m)\<lparr>rcu_pending := []\<rparr>"

section \<open>The crypto state\<close>

text \<open>
  \<^verbatim>\<open>struct ovpn_crypto_state\<close>: two RCU pointers to key slots and the bound dispatch
  table (\<open>None\<close> is \<^verbatim>\<open>NULL\<close>). The mutex is held by the caller of every function below
  (\<^verbatim>\<open>__must_hold(cs->mutex)\<close>) and is not part of the data.
\<close>

record ovpn_crypto_state =
  primary :: "nat option"
  secondary :: "nat option"
  cs_ops :: "ovpn_crypto_ops_ptr option"

text \<open>
  Modelled from the spec: \<^verbatim>\<open>ovpn_crypto_state_init\<close> is an inline function of \<^verbatim>\<open>crypto.h\<close>,
  which is not among the sources. Section 4.3, step 2: "Initialise empty CryptoState with
  no bound family".
\<close>

definition ovpn_crypto_state_init :: ovpn_crypto_state where
  "ovpn_crypto_state_init = \<lparr>primary = None, secondary = None, cs_ops = None\<rparr>"

text \<open>\<^verbatim>\<open>ovpn_crypto_select_family\<close> (crypto.c, lines 149-162).\<close>

definition ovpn_crypto_select_family :: "ovpn_peer_key_reset \<Rightarrow> ovpn_crypto_ops_ptr option" where
  "ovpn_crypto_select_family pkr =
     (case crypto_family pkr of
        OVPN_CRYPTO_FAMILY_UNDEF \<Rightarrow> None
      | OVPN_CRYPTO_FAMILY_AEAD \<Rightarrow> Some ovpn_aead_ops
      | _ \<Rightarrow> None)"

text \<open>\<^verbatim>\<open>ovpn_crypto_state_select_family\<close> (crypto.c, lines 164-182).\<close>

definition ovpn_crypto_state_select_family ::
  "ovpn_crypto_state \<Rightarrow> ovpn_peer_key_reset \<Rightarrow> ret \<times> ovpn_crypto_state" where
  "ovpn_crypto_state_select_family cs pkr =
     (case ovpn_crypto_select_family pkr of
        None \<Rightarrow> (RET_ERR EOPNOTSUPP, cs)
      | Some new_ops \<Rightarrow>
          if cs_ops cs \<noteq> None \<and> cs_ops cs \<noteq> Some new_ops then (RET_ERR EINVAL, cs)
          else (RET_OK, cs\<lparr>cs_ops := Some new_ops\<rparr>))"

text \<open>\<^verbatim>\<open>ovpn_keys_familiy_get\<close> (crypto.c, lines 184-195).\<close>

definition ovpn_keys_familiy_get :: "ovpn_key_config \<Rightarrow> ovpn_crypto_families" where
  "ovpn_keys_familiy_get kc =
     (case cipher_alg kc of
        OVPN_CIPHER_ALG_AES_GCM \<Rightarrow> OVPN_CRYPTO_FAMILY_AEAD
      | OVPN_CIPHER_ALG_AES_CBC \<Rightarrow> OVPN_CRYPTO_FAMILY_CBC_HMAC
      | _ \<Rightarrow> OVPN_CRYPTO_FAMILY_UNDEF)"

text \<open>The statement \<^verbatim>\<open>new->remote_peer_id = pkr->remote_peer_id;\<close>\<close>

definition ks_set_remote_peer_id :: "ks_mem \<Rightarrow> nat \<Rightarrow> 32 word \<Rightarrow> ks_mem" where
  "ks_set_remote_peer_id m a pid =
     (case ks_at m a of
        None \<Rightarrow> m
      | Some ks \<Rightarrow> ks_store m a (ks\<lparr>ks_remote_peer_id := pid\<rparr>))"

text \<open>
  The tail of \<^verbatim>\<open>ovpn_crypto_state_reset\<close> after the \<^verbatim>\<open>switch\<close>:
  \<^verbatim>\<open>if (old) ovpn_crypto_key_slot_put(old); return 0;\<close>
\<close>

definition reset_put_old ::
  "nat option \<Rightarrow> ovpn_crypto_state \<Rightarrow> ks_mem \<Rightarrow> (ret \<times> ovpn_crypto_state \<times> ks_mem) option" where
  "reset_put_old old cs m =
     (case old of
        None \<Rightarrow> Some (RET_OK, cs, m)
      | Some a \<Rightarrow>
          (case ovpn_crypto_key_slot_put m a of
             None \<Rightarrow> None
           | Some m' \<Rightarrow> Some (RET_OK, cs, m')))"

text \<open>
  \<^verbatim>\<open>ovpn_crypto_state_reset\<close> (crypto.c, lines 80-118). The result is \<open>None\<close> where the C
  code dereferences an invalid pointer (\<^verbatim>\<open>cs->ops\<close> is \<^verbatim>\<open>NULL\<close>, or the old slot pointer
  dangles) and so does not return; otherwise it is the return value with the crypto
  state and the key-slot memory the call leaves behind. \<^verbatim>\<open>rcu_replace_pointer\<close> stores the
  new pointer and yields the one it replaces.
\<close>

definition ovpn_crypto_state_reset ::
  "ops_tables \<Rightarrow> ovpn_crypto_state \<Rightarrow> ks_mem \<Rightarrow> ovpn_peer_key_reset
     \<Rightarrow> (ret \<times> ovpn_crypto_state \<times> ks_mem) option" where
  "ovpn_crypto_state_reset tab cs m pkr =
     (case cs_ops cs of
        None \<Rightarrow> None
      | Some ops \<Rightarrow>
          (case ovpn_ks_new tab ops (key pkr) m of
             Inl e \<Rightarrow> Some (RET_ERR e, cs, m)
           | Inr (new, m1) \<Rightarrow>
               (let m2 = ks_set_remote_peer_id m1 new (remote_peer_id pkr) in
                case slot pkr of
                  OVPN_KEY_SLOT_PRIMARY \<Rightarrow>
                    reset_put_old (primary cs) (cs\<lparr>primary := Some new\<rparr>) m2
                | OVPN_KEY_SLOT_SECONDARY \<Rightarrow>
                    reset_put_old (secondary cs) (cs\<lparr>secondary := Some new\<rparr>) m2
                | OVPN_KEY_SLOT_INVALID _ \<Rightarrow>
                    (case ovpn_crypto_key_slot_put m2 new of
                       None \<Rightarrow> None
                     | Some m3 \<Rightarrow> Some (RET_ERR EINVAL, cs, m3)))))"

text \<open>
  The crypto state and the memory after each statement of \<^verbatim>\<open>ovpn_crypto_state_reset\<close>
  that changes one of them, in program order: the construction of the new slot, the
  store to \<^verbatim>\<open>new->remote_peer_id\<close>, the \<^verbatim>\<open>rcu_replace_pointer\<close>, the put of the old (or,
  for an invalid slot, of the new) key slot. These are the states a reader can find
  between the writer's statements.
\<close>

definition reset_put_old_steps ::
  "nat option \<Rightarrow> ovpn_crypto_state \<Rightarrow> ks_mem \<Rightarrow> (ovpn_crypto_state \<times> ks_mem) list" where
  "reset_put_old_steps old cs m =
     (case old of
        None \<Rightarrow> []
      | Some a \<Rightarrow>
          (case ovpn_crypto_key_slot_put m a of
             None \<Rightarrow> []
           | Some m' \<Rightarrow> [(cs, m')]))"

definition ovpn_crypto_state_reset_steps ::
  "ops_tables \<Rightarrow> ovpn_crypto_state \<Rightarrow> ks_mem \<Rightarrow> ovpn_peer_key_reset
     \<Rightarrow> (ovpn_crypto_state \<times> ks_mem) list" where
  "ovpn_crypto_state_reset_steps tab cs m pkr =
     (case cs_ops cs of
        None \<Rightarrow> []
      | Some ops \<Rightarrow>
          (case ovpn_ks_new tab ops (key pkr) m of
             Inl e \<Rightarrow> []
           | Inr (new, m1) \<Rightarrow>
               (let m2 = ks_set_remote_peer_id m1 new (remote_peer_id pkr) in
                (cs, m1) # (cs, m2) #
                (case slot pkr of
                   OVPN_KEY_SLOT_PRIMARY \<Rightarrow>
                     (cs\<lparr>primary := Some new\<rparr>, m2) #
                     reset_put_old_steps (primary cs) (cs\<lparr>primary := Some new\<rparr>) m2
                 | OVPN_KEY_SLOT_SECONDARY \<Rightarrow>
                     (cs\<lparr>secondary := Some new\<rparr>, m2) #
                     reset_put_old_steps (secondary cs) (cs\<lparr>secondary := Some new\<rparr>) m2
                 | OVPN_KEY_SLOT_INVALID _ \<Rightarrow>
                     (case ovpn_crypto_key_slot_put m2 new of
                        None \<Rightarrow> []
                      | Some m3 \<Rightarrow> [(cs, m3)])))))"

text \<open>
  \<^verbatim>\<open>ovpn_crypto_state_release\<close> (crypto.c, lines 41-58): each slot that is set is cleared
  and put; \<^verbatim>\<open>mutex_destroy\<close> changes nothing that is modelled.
\<close>

definition release_slot_ptr :: "nat option \<Rightarrow> ks_mem \<Rightarrow> ks_mem option" where
  "release_slot_ptr p m =
     (case p of
        None \<Rightarrow> Some m
      | Some a \<Rightarrow> ovpn_crypto_key_slot_put m a)"

definition ovpn_crypto_state_release ::
  "ovpn_crypto_state \<Rightarrow> ks_mem \<Rightarrow> (ovpn_crypto_state \<times> ks_mem) option" where
  "ovpn_crypto_state_release cs m =
     (case release_slot_ptr (primary cs) m of
        None \<Rightarrow> None
      | Some m1 \<Rightarrow>
          (case release_slot_ptr (secondary cs) m1 of
             None \<Rightarrow> None
           | Some m2 \<Rightarrow> Some (cs\<lparr>primary := None, secondary := None\<rparr>, m2)))"

text \<open>The pointer a slot identifier names; an invalid identifier names none.\<close>

definition cs_slot :: "ovpn_crypto_state \<Rightarrow> ovpn_key_slot \<Rightarrow> nat option" where
  "cs_slot cs s =
     (case s of
        OVPN_KEY_SLOT_PRIMARY \<Rightarrow> primary cs
      | OVPN_KEY_SLOT_SECONDARY \<Rightarrow> secondary cs
      | OVPN_KEY_SLOT_INVALID _ \<Rightarrow> None)"

text \<open>
  Invariant (a) of the crypto state (section 3): each slot pointer is \<^verbatim>\<open>NULL\<close> or points
  to a key slot that has not been destroyed.
\<close>

definition ks_ptr_valid :: "ks_mem \<Rightarrow> nat option \<Rightarrow> bool" where
  "ks_ptr_valid m p =
     (case p of
        None \<Rightarrow> True
      | Some a \<Rightarrow> ks_at m a \<noteq> None)"

definition cs_valid :: "ovpn_crypto_state \<Rightarrow> ks_mem \<Rightarrow> bool" where
  "cs_valid cs m = (ks_ptr_valid m (primary cs) \<and> ks_ptr_valid m (secondary cs))"

text \<open>
  Modelled from the spec: the \<^verbatim>\<open>new\<close> member of \<^verbatim>\<open>ovpn_aead_ops\<close> is defined in \<^verbatim>\<open>aead.c\<close>,
  which is not among the sources. Section 4.1: "new(KeyConfig): build the encrypt/decrypt
  contexts, reject malformed key sizes or unsupported algorithms"; scenario S3: a key
  whose algorithm is AES-CBC "fails with unsupported". The validation of the key bytes
  and the construction of the contexts belong to the external AEAD library: \<open>ctx_err kc\<close>
  is the error it reports for \<open>kc\<close>, if any. A slot is born with one reference (the one
  the crypto state will hold) and the key id of its configuration.
\<close>

definition ovpn_aead_new ::
  "(ovpn_key_config \<Rightarrow> errno option) \<Rightarrow> ovpn_key_config \<Rightarrow> errno + ovpn_crypto_key_slot" where
  "ovpn_aead_new ctx_err kc =
     (if ovpn_keys_familiy_get kc \<noteq> OVPN_CRYPTO_FAMILY_AEAD then Inl EOPNOTSUPP
      else case ctx_err kc of
             Some e \<Rightarrow> Inl e
           | None \<Rightarrow>
               Inr \<lparr>ks_ops = ovpn_aead_ops, ks_refcount = 1, ks_key_id = key_id kc,
                    ks_remote_peer_id = 0, ks_encrypt = encrypt kc, ks_decrypt = decrypt kc\<rparr>)"

text \<open>
  Modelled from the spec: the lookup of a key slot by key id is an inline function of
  \<^verbatim>\<open>crypto.h\<close>, which is not among the sources. Section 4.2: "lookup(key_id): handle to
  matching slot with reader reference held; no-key if neither slot matches". A slot
  matches when it is set and the key slot it points to has the key id asked for.
\<close>

definition slot_with_key :: "ks_mem \<Rightarrow> nat option \<Rightarrow> 32 word \<Rightarrow> nat option" where
  "slot_with_key m p kid =
     (case p of
        None \<Rightarrow> None
      | Some a \<Rightarrow>
          (case ks_at m a of
             None \<Rightarrow> None
           | Some ks \<Rightarrow> if ks_key_id ks = kid then Some a else None))"

text \<open>
  Modelled from the spec: the "reader reference held" on the slot a lookup returns, one
  more on its counter.
\<close>

definition ks_hold :: "ks_mem \<Rightarrow> nat \<Rightarrow> ks_mem" where
  "ks_hold m a =
     (case ks_at m a of
        None \<Rightarrow> m
      | Some ks \<Rightarrow> ks_store m a (ks\<lparr>ks_refcount := ks_refcount ks + 1\<rparr>))"

text \<open>
  Modelled from the spec: lookup(key_id) of section 4.2, the primary slot first; \<open>ENOENT\<close>
  is the no-key kind.
\<close>

definition crypto_state_lookup ::
  "ovpn_crypto_state \<Rightarrow> ks_mem \<Rightarrow> 32 word \<Rightarrow> errno + (nat \<times> ks_mem)" where
  "crypto_state_lookup cs m kid =
     (case slot_with_key m (primary cs) kid of
        Some a \<Rightarrow> Inr (a, ks_hold m a)
      | None \<Rightarrow>
          (case slot_with_key m (secondary cs) kid of
             Some a \<Rightarrow> Inr (a, ks_hold m a)
           | None \<Rightarrow> Inl ENOENT))"

subsection \<open>The inputs of the scenarios\<close>

text \<open>
  Scenario S1 of the specification: the key \<open>K1\<close> and the request that installs it into
  the primary slot with remote peer id 2; scenario S3: the same request for an AES-CBC
  key. The AEAD library accepts every key it is given here.
\<close>

definition K1 :: ovpn_key_config where
  "K1 = \<lparr>cipher_alg = OVPN_CIPHER_ALG_AES_GCM, key_id = 1,
         encrypt = \<lparr>cipher_key = replicate 32 0x11, nonce_tail = replicate 4 0xAA\<rparr>,
         decrypt = \<lparr>cipher_key = replicate 32 0x22, nonce_tail = replicate 4 0xBB\<rparr>\<rparr>"

definition S1_pkr :: ovpn_peer_key_reset where
  "S1_pkr = \<lparr>slot = OVPN_KEY_SLOT_PRIMARY, crypto_family = OVPN_CRYPTO_FAMILY_AEAD,
             remote_peer_id = 2, key = K1\<rparr>"

definition S3_pkr :: ovpn_peer_key_reset where
  "S3_pkr = S1_pkr\<lparr>crypto_family := OVPN_CRYPTO_FAMILY_CBC_HMAC,
                   key := K1\<lparr>cipher_alg := OVPN_CIPHER_ALG_AES_CBC\<rparr>\<rparr>"

definition aead_tables :: ops_tables where
  "aead_tables = (\<lambda>_. ovpn_aead_new (\<lambda>_. None))"

definition ks_mem_empty :: ks_mem where
  "ks_mem_empty = \<lparr>ks_heap = [], rcu_pending = []\<rparr>"

text \<open>A crypto state bound to AEAD, and one bound to a table at another address.\<close>

definition cs_aead :: ovpn_crypto_state where
  "cs_aead = ovpn_crypto_state_init\<lparr>cs_ops := Some ovpn_aead_ops\<rparr>"

definition cs_other :: ovpn_crypto_state where
  "cs_other = ovpn_crypto_state_init\<lparr>cs_ops := Some (ovpn_ops_at 0)\<rparr>"

text \<open>
  The crypto state and the memory once \<open>S1_pkr\<close> has been installed into a state bound to
  AEAD and an empty memory; a request for a slot that does not exist, and the memory it
  leaves behind when made in that state.
\<close>

definition S1_slot :: ovpn_crypto_key_slot where
  "S1_slot = \<lparr>ks_ops = ovpn_aead_ops, ks_refcount = 1, ks_key_id = 1, ks_remote_peer_id = 2,
              ks_encrypt = encrypt K1, ks_decrypt = decrypt K1\<rparr>"

definition S1_cs :: ovpn_crypto_state where
  "S1_cs = cs_aead\<lparr>primary := Some 0\<rparr>"

definition S1_mem :: ks_mem where
  "S1_mem = \<lparr>ks_heap = [Some S1_slot], rcu_pending = []\<rparr>"

definition bad_slot_pkr :: ovpn_peer_key_reset where
  "bad_slot_pkr = S1_pkr\<lparr>slot := OVPN_KEY_SLOT_INVALID 2\<rparr>"

definition S1_mem_rejected :: ks_mem where
  "S1_mem_rejected =
     \<lparr>ks_heap = [Some S1_slot, Some (S1_slot\<lparr>ks_refcount := 0\<rparr>)], rcu_pending = [1]\<rparr>"

section \<open>Peers\<close>

subsection \<open>Timers and reference counting\<close>

text \<open>
  Modelled from the spec: \<^verbatim>\<open>struct ovpn_timer\<close> and its inline functions are defined in
  \<^verbatim>\<open>timer.h\<close>, which is not among the sources. Section 4.5: "Each timer has {period,
  armed, callback}"; section 4.3, step 4: the timers start "disarmed, no period". The
  callback is fixed per timer and is not part of the data.
\<close>

record ovpn_timer =
  period :: nat
  armed :: bool

text \<open>Modelled from the spec: \<^verbatim>\<open>ovpn_timer_init\<close> (timer.h) leaves a timer "disarmed, no period".\<close>

definition ovpn_timer_init :: ovpn_timer where
  "ovpn_timer_init = \<lparr>period = 0, armed = False\<rparr>"

text \<open>Modelled from the spec: \<^verbatim>\<open>ovpn_timer_set_period\<close> (timer.h) "updates" the period.\<close>

definition ovpn_timer_set_period :: "ovpn_timer \<Rightarrow> nat \<Rightarrow> ovpn_timer" where
  "ovpn_timer_set_period t p = t\<lparr>period := p\<rparr>"

text \<open>
  \<^verbatim>\<open>ovpn_timer_schedule\<close> is an inline function of \<^verbatim>\<open>timer.h\<close> too. What it does to a timer,
  and what it answers, is a parameter of the functions of \<^verbatim>\<open>peer.c\<close> that call it: a
  function from the timer to the answer and the timer as the call leaves it.
\<close>

type_synonym timer_schedule = "ovpn_timer \<Rightarrow> bool \<times> ovpn_timer"

text \<open>
  Modelled from the spec: what \<^verbatim>\<open>ovpn_timer_schedule\<close> has to guarantee for the callers in
  \<^verbatim>\<open>peer.c\<close> to keep the count (section 4.5: "Arming increments the peer refcount", "a
  newly-armed timer adds one"). The period is left alone; a timer that is armed stays
  armed (it is rescheduled, or left to fire) and the answer is true; for a timer that is
  not armed the answer is false exactly when the call has armed it, which is when the
  caller takes a reference for the timer.
\<close>

definition timer_schedule_contract :: "timer_schedule \<Rightarrow> bool" where
  "timer_schedule_contract f =
     (\<forall>t. period (snd (f t)) = period t \<and>
          (armed t \<longrightarrow> fst (f t) \<and> armed (snd (f t))) \<and>
          (\<not> armed t \<longrightarrow> armed (snd (f t)) = (\<not> fst (f t))))"


definition schedule_disarm_at_once :: timer_schedule where
  "schedule_disarm_at_once t =
     (if period t = 0 then (True, t\<lparr>armed := False\<rparr>)
      else (armed t, t\<lparr>armed := True\<rparr>))"

text \<open>
  Modelled from the spec: \<^verbatim>\<open>ovpn_timer_delete\<close> (timer.h) cancels the timer. The answer is
  true exactly when the timer was armed.
\<close>

definition ovpn_timer_delete :: "ovpn_timer \<Rightarrow> bool \<times> ovpn_timer" where
  "ovpn_timer_delete t = (armed t, t\<lparr>armed := False\<rparr>)"

text \<open>
  \<^verbatim>\<open>struct ovpn_peer\<close>, as far as \<^verbatim>\<open>peer.c\<close> reads and writes it. A bind is the socket
  address pair it was made from; a packet buffer is known by its address; \<open>rcu_queued\<close>
  counts the times \<^verbatim>\<open>peer->rcu\<close> has been handed to \<^verbatim>\<open>call_rcu\<close>. The statistics, the two
  work items, the mutex and the spinlock carry no state that the functions below depend
  on, and there is one tunnel device, so \<^verbatim>\<open>peer->ovpn\<close> is not recorded.
\<close>

datatype ovpn_status = OVPN_STATUS_ACTIVE

record ovpn_sockaddr_pair =
  sa_local :: "8 word list"
  sa_remote :: "8 word list"

type_synonym ovpn_bind = ovpn_sockaddr_pair

type_synonym sk_buff = nat

record ovpn_peer =
  status :: ovpn_status
  halt :: bool
  bind :: "ovpn_bind option"
  crypto :: ovpn_crypto_state
  refcount :: int
  rcu_queued :: nat
  tx_ring :: "sk_buff list"
  rx_ring :: "sk_buff list"
  keepalive_xmit :: ovpn_timer
  keepalive_expire :: ovpn_timer

text \<open>\<^verbatim>\<open>ovpn_peer_release_kref\<close> (peer.c, lines 137-142): \<^verbatim>\<open>call_rcu(&peer->rcu, ovpn_peer_release_rcu)\<close>.\<close>

definition ovpn_peer_release_kref :: "ovpn_peer \<Rightarrow> ovpn_peer" where
  "ovpn_peer_release_kref p = p\<lparr>rcu_queued := Suc (rcu_queued p)\<rparr>"

text \<open>
  Modelled from the spec: \<^verbatim>\<open>ovpn_peer_hold\<close> and \<^verbatim>\<open>ovpn_peer_put\<close> are inline functions of
  \<^verbatim>\<open>peer.h\<close>, which is not among the sources. Section 4.4: "peer_hold(peer): attempts to
  increment refcount; returns false if already zero"; "peer_put(peer): decrement; on
  zero, schedule deferred release". The release is scheduled through
  \<^verbatim>\<open>ovpn_peer_release_kref\<close> of \<^verbatim>\<open>peer.c\<close>. The count is an integer, so a put on a
  count of zero is seen as a negative count.
\<close>

definition ovpn_peer_hold :: "ovpn_peer \<Rightarrow> bool \<times> ovpn_peer" where
  "ovpn_peer_hold p =
     (if refcount p = 0 then (False, p)
      else (True, p\<lparr>refcount := refcount p + 1\<rparr>))"

text \<open>
  Modelled from the spec: \<^verbatim>\<open>ovpn_peer_put\<close> (peer.h), "decrement; on zero, schedule deferred
  release".
\<close>

definition ovpn_peer_put :: "ovpn_peer \<Rightarrow> ovpn_peer" where
  "ovpn_peer_put p =
     (let p' = p\<lparr>refcount := refcount p - 1\<rparr>
      in if refcount p' = 0 then ovpn_peer_release_kref p' else p')"

text \<open>\<^verbatim>\<open>ovpn_peer_delete\<close> (peer.c, lines 148-155).\<close>

definition ovpn_peer_delete :: "ovpn_peer \<Rightarrow> ovpn_peer" where
  "ovpn_peer_delete p = (if halt p then p else ovpn_peer_put (p\<lparr>halt := True\<rparr>))"

text \<open>
  A \<^verbatim>\<open>struct ovpn_timer *\<close> into a peer is \<^verbatim>\<open>&peer->keepalive_xmit\<close> or
  \<^verbatim>\<open>&peer->keepalive_expire\<close>: \<open>peer_timer\<close> reads through it, \<open>peer_timer_update\<close> writes.
\<close>

datatype timer_id = KEEPALIVE_XMIT | KEEPALIVE_EXPIRE

definition peer_timer :: "ovpn_peer \<Rightarrow> timer_id \<Rightarrow> ovpn_timer" where
  "peer_timer p t =
     (case t of
        KEEPALIVE_XMIT \<Rightarrow> keepalive_xmit p
      | KEEPALIVE_EXPIRE \<Rightarrow> keepalive_expire p)"

definition peer_timer_update :: "ovpn_peer \<Rightarrow> timer_id \<Rightarrow> ovpn_timer \<Rightarrow> ovpn_peer" where
  "peer_timer_update p t tm =
     (case t of
        KEEPALIVE_XMIT \<Rightarrow> p\<lparr>keepalive_xmit := tm\<rparr>
      | KEEPALIVE_EXPIRE \<Rightarrow> p\<lparr>keepalive_expire := tm\<rparr>)"

text \<open>\<^verbatim>\<open>ovpn_peer_timer_delete\<close> and \<^verbatim>\<open>ovpn_peer_timer_delete_all\<close> (peer.c, lines 180-190).\<close>

definition ovpn_peer_timer_delete :: "ovpn_peer \<Rightarrow> timer_id \<Rightarrow> ovpn_peer" where
  "ovpn_peer_timer_delete p t =
     (case ovpn_timer_delete (peer_timer p t) of
        (was_armed, tm) \<Rightarrow>
          (let p1 = peer_timer_update p t tm
           in if was_armed then ovpn_peer_put p1 else p1))"

definition ovpn_peer_timer_delete_all :: "ovpn_peer \<Rightarrow> ovpn_peer" where
  "ovpn_peer_timer_delete_all p =
     ovpn_peer_timer_delete (ovpn_peer_timer_delete p KEEPALIVE_XMIT) KEEPALIVE_EXPIRE"

text \<open>
  \<^verbatim>\<open>ovpn_peer_timer_schedule\<close> (peer.c, lines 192-210); its first argument is the
  function \<^verbatim>\<open>ovpn_timer_schedule\<close> of \<^verbatim>\<open>timer.h\<close>. The \<^verbatim>\<open>default\<close> branch is \<^verbatim>\<open>WARN_ON(1)\<close>, a
  diagnostic that changes no state.
\<close>

definition ovpn_peer_timer_schedule ::
  "timer_schedule \<Rightarrow> ovpn_peer \<Rightarrow> timer_id \<Rightarrow> int \<Rightarrow> ovpn_peer" where
  "ovpn_peer_timer_schedule ovpn_timer_schedule p t rcdelta =
     (case ovpn_timer_schedule (peer_timer p t) of
        (r, tm) \<Rightarrow>
          (let p1 = peer_timer_update p t tm;
               rcdelta' = (if \<not> r then rcdelta + 1 else rcdelta)
           in if rcdelta' = 0 then p1
              else if rcdelta' = 1 then
                (case ovpn_peer_hold p1 of
                   (held, p2) \<Rightarrow>
                     if \<not> held
                     then peer_timer_update p2 t (snd (ovpn_timer_delete (peer_timer p2 t)))
                     else p2)
              else if rcdelta' = - 1 then ovpn_peer_put p1
              else p1))"

text \<open>
  \<^verbatim>\<open>ovpn_peer_set_keepalive\<close> (peer.c, lines 250-259), with \<^verbatim>\<open>ovpn_timer_schedule\<close> as its
  first argument.
\<close>

definition ovpn_peer_set_keepalive ::
  "timer_schedule \<Rightarrow> ovpn_peer \<Rightarrow> nat \<Rightarrow> nat \<Rightarrow> ovpn_peer" where
  "ovpn_peer_set_keepalive ovpn_timer_schedule p keepalive_ping keepalive_timeout =
     (let p1 = p\<lparr>keepalive_xmit := ovpn_timer_set_period (keepalive_xmit p) keepalive_ping\<rparr>;
          p2 = ovpn_peer_timer_schedule ovpn_timer_schedule p1 KEEPALIVE_XMIT 0;
          p3 = p2\<lparr>keepalive_expire :=
                    ovpn_timer_set_period (keepalive_expire p2) keepalive_timeout\<rparr>
      in ovpn_peer_timer_schedule ovpn_timer_schedule p3 KEEPALIVE_EXPIRE 0)"

subsection \<open>Construction and release\<close>

text \<open>
  What lies outside the peer and is touched when one is built or released: the key-slot
  memory, the reference count of the tunnel device, the allocations that are live (the
  peer object, the arrays of its two rings, its bind), the packet buffers that have been
  freed, and a log of the statements of the release routines in the order they ran.
\<close>

datatype resource = RES_PEER | RES_TX_RING | RES_RX_RING | RES_BIND

datatype ring_id = TX_RING | RX_RING

datatype event =
    EV_CRYPTO_STATE_RELEASE
  | EV_BIND_RESET
  | EV_TIMER_DELETE_ALL
  | EV_WARN_ON ring_id
  | EV_RING_CLEANUP ring_id
  | EV_DEV_PUT
  | EV_MUTEX_DESTROY
  | EV_KFREE_PEER

record kernel =
  k_mem :: ks_mem
  k_dev_refcnt :: int
  k_live :: "resource list"
  k_freed :: "sk_buff list"
  k_log :: "event list"

definition log_ev :: "event \<Rightarrow> kernel \<Rightarrow> kernel" where
  "log_ev e k = k\<lparr>k_log := k_log k @ [e]\<rparr>"

definition kalloc :: "resource \<Rightarrow> kernel \<Rightarrow> kernel" where
  "kalloc r k = k\<lparr>k_live := r # k_live k\<rparr>"

definition kfree :: "resource \<Rightarrow> kernel \<Rightarrow> kernel" where
  "kfree r k = k\<lparr>k_live := remove1 r (k_live k)\<rparr>"

text \<open>
  \<^verbatim>\<open>ptr_ring_cleanup(r, destroy)\<close>: what is still queued is handed to \<^verbatim>\<open>destroy\<close>, here
  \<^verbatim>\<open>ovpn_peer_clean_ring\<close>, which frees the buffer, and the array of the ring is freed.
\<close>

definition ptr_ring_cleanup :: "sk_buff list \<Rightarrow> resource \<Rightarrow> kernel \<Rightarrow> kernel" where
  "ptr_ring_cleanup ring r k = kfree r (k\<lparr>k_freed := k_freed k @ ring\<rparr>)"

text \<open>
  Modelled from the spec: \<^verbatim>\<open>ovpn_bind_reset\<close> is defined in \<^verbatim>\<open>bind.c\<close>, which is not among
  the sources. Section 3: a bind is "immutable once constructed; replaced atomically";
  section 4.3: releasing the peer starts with "Release Bind". The new bind takes the
  place of the old one, and the old one, if any, is freed.
\<close>

definition ovpn_bind_reset ::
  "ovpn_peer \<Rightarrow> ovpn_bind option \<Rightarrow> kernel \<Rightarrow> ovpn_peer \<times> kernel" where
  "ovpn_bind_reset p new k =
     (p\<lparr>bind := new\<rparr>, if bind p = None then k else kfree RES_BIND k)"

text \<open>
  The outcomes of the allocations a construction makes, which the caller cannot choose:
  whether \<^verbatim>\<open>kmalloc\<close> of the peer succeeds, what the two calls of \<^verbatim>\<open>ptr_ring_init\<close>
  return (0, or a negative error number), and the error of
  \<^verbatim>\<open>ovpn_bind_from_sockaddr_pair\<close>, if any.
\<close>

record alloc_env =
  kmalloc_peer :: bool
  tx_ring_init :: int
  rx_ring_init :: int
  bind_err :: "errno option"

text \<open>A pointer result: \<^verbatim>\<open>NULL\<close>, an \<^verbatim>\<open>ERR_PTR\<close>, or a pointer to an object.\<close>

datatype 'a ptr = NULL | ERR_PTR errno | PTR 'a

definition IS_ERR :: "'a ptr \<Rightarrow> bool" where
  "IS_ERR p =
     (case p of
        ERR_PTR _ \<Rightarrow> True
      | _ \<Rightarrow> False)"

text \<open>
  The fields as \<^verbatim>\<open>ovpn_peer_new\<close> sets them (peer.c, lines 44-51 and 72-75);
  \<^verbatim>\<open>kref_init\<close> sets the count to 1.
\<close>

definition peer_init :: ovpn_peer where
  "peer_init =
     \<lparr>status = OVPN_STATUS_ACTIVE, halt = False, bind = None,
      crypto = ovpn_crypto_state_init, refcount = 1, rcu_queued = 0,
      tx_ring = [], rx_ring = [],
      keepalive_xmit = ovpn_timer_init, keepalive_expire = ovpn_timer_init\<rparr>"

text \<open>\<^verbatim>\<open>ovpn_peer_new\<close> (peer.c, lines 34-83).\<close>

definition ovpn_peer_new :: "alloc_env \<Rightarrow> kernel \<Rightarrow> ovpn_peer ptr \<times> kernel" where
  "ovpn_peer_new env k =
     (if \<not> kmalloc_peer env then (ERR_PTR ENOMEM, k)
      else
        (let k1 = kalloc RES_PEER k
         in if tx_ring_init env < 0 then (NULL, kfree RES_PEER k1)
            else
              (let k2 = kalloc RES_TX_RING k1
               in if rx_ring_init env < 0
                  then (NULL, kfree RES_PEER (ptr_ring_cleanup [] RES_TX_RING k2))
                  else
                    (let k3 = kalloc RES_RX_RING k2
                     in (PTR peer_init, k3\<lparr>k_dev_refcnt := k_dev_refcnt k3 + 1\<rparr>)))))"

text \<open>\<^verbatim>\<open>ovpn_peer_reset_sockaddr\<close> (peer.c, lines 86-100).\<close>

definition ovpn_peer_reset_sockaddr ::
  "alloc_env \<Rightarrow> ovpn_peer \<Rightarrow> ovpn_sockaddr_pair \<Rightarrow> kernel \<Rightarrow> ret \<times> ovpn_peer \<times> kernel" where
  "ovpn_peer_reset_sockaddr env p sapair k =
     (case bind_err env of
        Some e \<Rightarrow> (RET_ERR e, p, k)
      | None \<Rightarrow>
          (case ovpn_bind_reset p (Some sapair) (kalloc RES_BIND k) of
             (p', k') \<Rightarrow> (RET_OK, p', k')))"

text \<open>
  \<^verbatim>\<open>ovpn_peer_release\<close> (peer.c, lines 109-123), statement by statement: the peer and the
  kernel after the bind has been reset, after the timers have been deleted, after each
  \<^verbatim>\<open>WARN_ON\<close>, after each \<^verbatim>\<open>ptr_ring_cleanup\<close> (which empties the ring), after \<^verbatim>\<open>dev_put\<close>,
  after \<^verbatim>\<open>mutex_destroy\<close> and after \<^verbatim>\<open>kfree(peer)\<close>. Every statement leaves its event in
  the log. Once the peer is freed, its component is what the freed memory held.
\<close>

definition ovpn_peer_release_steps :: "ovpn_peer \<Rightarrow> kernel \<Rightarrow> (ovpn_peer \<times> kernel) list" where
  "ovpn_peer_release_steps p k =
     (let (p1, k1) = ovpn_bind_reset p None (log_ev EV_BIND_RESET k);
          p2 = ovpn_peer_timer_delete_all p1;
          k2 = log_ev EV_TIMER_DELETE_ALL k1;
          k3 = (if tx_ring p2 \<noteq> [] then log_ev (EV_WARN_ON TX_RING) k2 else k2);
          p4 = p2\<lparr>tx_ring := []\<rparr>;
          k4 = ptr_ring_cleanup (tx_ring p2) RES_TX_RING (log_ev (EV_RING_CLEANUP TX_RING) k3);
          k5 = (if rx_ring p4 \<noteq> [] then log_ev (EV_WARN_ON RX_RING) k4 else k4);
          p6 = p4\<lparr>rx_ring := []\<rparr>;
          k6 = ptr_ring_cleanup (rx_ring p4) RES_RX_RING (log_ev (EV_RING_CLEANUP RX_RING) k5);
          k7 = (log_ev EV_DEV_PUT k6)\<lparr>k_dev_refcnt := k_dev_refcnt k6 - 1\<rparr>;
          k8 = log_ev EV_MUTEX_DESTROY k7;
          k9 = kfree RES_PEER (log_ev EV_KFREE_PEER k8)
      in [(p1, k1), (p2, k2), (p2, k3), (p4, k4), (p4, k5), (p6, k6), (p6, k7), (p6, k8),
          (p6, k9)])"

text \<open>What \<^verbatim>\<open>ovpn_peer_release\<close> leaves behind: the kernel after its last statement.\<close>

definition ovpn_peer_release :: "ovpn_peer \<Rightarrow> kernel \<Rightarrow> kernel" where
  "ovpn_peer_release p k = snd (last (ovpn_peer_release_steps p k))"

text \<open>
  \<^verbatim>\<open>ovpn_peer_release_rcu\<close> (peer.c, lines 125-131), statement by statement. The first
  statement is \<^verbatim>\<open>ovpn_crypto_state_release(peer)\<close>: it passes the pointer to the peer where
  \<^verbatim>\<open>crypto.c\<close> takes a pointer to a crypto state, so the callee works on what lies at the
  start of the peer. \<open>crypto_offset\<close> is the offset of the member \<^verbatim>\<open>crypto\<close> in
  \<^verbatim>\<open>struct ovpn_peer\<close>, which \<^verbatim>\<open>peer.h\<close> (not among the sources) fixes. When it is 0, the
  callee releases the crypto state of the peer. When it is not, the callee reads and
  writes other members of the peer as if they were slot pointers, which has no defined
  outcome: the result is \<open>None\<close>, as it is when a slot pointer of the crypto state
  dangles.
\<close>

definition ovpn_peer_release_rcu_steps ::
  "nat \<Rightarrow> ovpn_peer \<Rightarrow> kernel \<Rightarrow> (ovpn_peer \<times> kernel) list option" where
  "ovpn_peer_release_rcu_steps crypto_offset p k =
     (if crypto_offset \<noteq> 0 then None
      else
        (case ovpn_crypto_state_release (crypto p) (k_mem k) of
           None \<Rightarrow> None
         | Some (cs', m') \<Rightarrow>
             (let p0 = p\<lparr>crypto := cs'\<rparr>;
                  k0 = log_ev EV_CRYPTO_STATE_RELEASE (k\<lparr>k_mem := m'\<rparr>)
              in Some ((p0, k0) # ovpn_peer_release_steps p0 k0))))"

text \<open>What \<^verbatim>\<open>ovpn_peer_release_rcu\<close> leaves behind: the kernel after its last statement.\<close>

definition ovpn_peer_release_rcu :: "nat \<Rightarrow> ovpn_peer \<Rightarrow> kernel \<Rightarrow> kernel option" where
  "ovpn_peer_release_rcu crypto_offset p k =
     (case ovpn_peer_release_rcu_steps crypto_offset p k of
        None \<Rightarrow> None
      | Some steps \<Rightarrow> Some (snd (last steps)))"

text \<open>
  \<^verbatim>\<open>ovpn_peer_new_with_sockaddr\<close> (peer.c, lines 157-177). \<open>None\<close>: the peer pointer is
  \<^verbatim>\<open>NULL\<close>, which \<^verbatim>\<open>IS_ERR\<close> lets through and the statements that follow dereference.
\<close>

definition ovpn_peer_new_with_sockaddr ::
  "alloc_env \<Rightarrow> ovpn_sockaddr_pair \<Rightarrow> kernel \<Rightarrow> (ovpn_peer ptr \<times> kernel) option" where
  "ovpn_peer_new_with_sockaddr env sapair k =
     (case ovpn_peer_new env k of
        (peer, k1) \<Rightarrow>
          if IS_ERR peer then Some (peer, k1)
          else
            (case peer of
               PTR p \<Rightarrow>
                 (case ovpn_peer_reset_sockaddr env p sapair k1 of
                    (RET_OK, p', k2) \<Rightarrow> Some (PTR p', k2)
                  | (RET_ERR e, p', k2) \<Rightarrow> Some (ERR_PTR e, ovpn_peer_release p' k2))
             | _ \<Rightarrow> None))"

subsection \<open>The inputs of the peer scenarios\<close>

text \<open>
  A kernel in which nothing of a peer exists yet; the allocation outcomes in which
  everything succeeds; a peer whose last reference is gone, with the key of scenario S1
  installed, a bind, and a packet left in its TX ring, and the kernel around it.
\<close>

definition kernel0 :: kernel where
  "kernel0 = \<lparr>k_mem = ks_mem_empty, k_dev_refcnt = 1, k_live = [], k_freed = [], k_log = []\<rparr>"

definition env_ok :: alloc_env where
  "env_ok = \<lparr>kmalloc_peer = True, tx_ring_init = 0, rx_ring_init = 0, bind_err = None\<rparr>"

definition sapair0 :: ovpn_sockaddr_pair where
  "sapair0 = \<lparr>sa_local = [10, 0, 0, 1], sa_remote = [10, 0, 0, 2]\<rparr>"





section \<open>Properties of the crypto state\<close>

subsection \<open>Key-slot memory\<close>

lemma fold_destroy_heap:
  "ks_heap (fold (\<lambda>a m'. ovpn_ks_destroy_rcu m' a) as m) =
   fold (\<lambda>a h. h[a := None]) as (ks_heap m)"
  by (induction as arbitrary: m) (simp_all add: ovpn_ks_destroy_rcu_def)

lemma fold_clear_length: "length (fold (\<lambda>a h. h[a := None]) as h) = length h"
  by (induction as arbitrary: h) simp_all

lemma fold_clear_nth:
  "i < length h \<Longrightarrow>
   fold (\<lambda>a h. h[a := None]) as h ! i = (if i \<in> set as then None else h ! i)"
  by (induction as arbitrary: h) (auto simp: nth_list_update)

text \<open>After a grace period a cell is empty if its destruction was pending, and untouched otherwise.\<close>

lemma ks_at_grace:
  "ks_at (rcu_grace_period m) a = (if a \<in> set (rcu_pending m) then None else ks_at m a)"
  by (simp add: ks_at_def rcu_grace_period_def fold_destroy_heap fold_clear_length fold_clear_nth)

lemma ks_at_append:
  "ks_at (m\<lparr>ks_heap := ks_heap m @ [c]\<rparr>) a =
   (if a = length (ks_heap m) then c else ks_at m a)"
  by (auto simp: ks_at_def nth_append)

lemma stamp_alloc:
  "ks_set_remote_peer_id (snd (ks_alloc m ks)) (length (ks_heap m)) pid =
   m\<lparr>ks_heap := ks_heap m @ [Some (ks\<lparr>ks_remote_peer_id := pid\<rparr>)]\<rparr>"
  by (simp add: ks_set_remote_peer_id_def ks_alloc_def ks_at_def ks_store_def)

lemma put_fresh:
  "ovpn_crypto_key_slot_put
     (ks_set_remote_peer_id (snd (ks_alloc m ks)) (length (ks_heap m)) pid) (length (ks_heap m)) =
   Some (m\<lparr>ks_heap := ks_heap m @
                [Some (ks\<lparr>ks_refcount := ks_refcount ks - 1, ks_remote_peer_id := pid\<rparr>)],
           rcu_pending := (if ks_refcount ks = 1 then rcu_pending m @ [length (ks_heap m)]
                           else rcu_pending m)\<rparr>)"
  by (simp add: ovpn_crypto_key_slot_put_def ks_set_remote_peer_id_def ks_alloc_def ks_at_def
      ks_store_def ovpn_crypto_key_slot_release_def Let_def)

text \<open>A put changes the reference count of one slot and nothing else.\<close>

lemma put_ids:
  assumes "ovpn_crypto_key_slot_put m a = Some m'"
  shows "map_option ks_remote_peer_id (ks_at m' b) = map_option ks_remote_peer_id (ks_at m b)"
    and "map_option ks_key_id (ks_at m' b) = map_option ks_key_id (ks_at m b)"
  using assms
  by (auto simp: ovpn_crypto_key_slot_put_def ks_at_def ks_store_def Let_def
      ovpn_crypto_key_slot_release_def nth_list_update split: option.splits if_splits)

lemma valid_not_fresh: "ks_ptr_valid m p \<Longrightarrow> p \<noteq> Some (length (ks_heap m))"
  by (auto simp: ks_ptr_valid_def ks_at_def)

subsection \<open>The paths through reset\<close>

lemma reset_invalid_built:
  "cs_ops cs = Some ops \<Longrightarrow> slot pkr = OVPN_KEY_SLOT_INVALID n \<Longrightarrow>
   tab ops (key pkr) = Inr ks \<Longrightarrow>
   ovpn_crypto_state_reset tab cs m pkr =
     Some (RET_ERR EINVAL, cs,
       m\<lparr>ks_heap := ks_heap m @
            [Some (ks\<lparr>ks_refcount := ks_refcount ks - 1,
                      ks_remote_peer_id := remote_peer_id pkr\<rparr>)],
         rcu_pending := (if ks_refcount ks = 1 then rcu_pending m @ [length (ks_heap m)]
                         else rcu_pending m)\<rparr>)"
  using put_fresh [of m ks "remote_peer_id pkr"]
  by (simp add: ovpn_crypto_state_reset_def ovpn_ks_new_def ks_alloc_def)

lemma reset_error_cases:
  assumes "ovpn_crypto_state_reset tab cs m pkr = Some (RET_ERR e, cs', m')"
  obtains ops where "cs_ops cs = Some ops" "tab ops (key pkr) = Inl e" "cs' = cs" "m' = m"
  | ops ks n where "cs_ops cs = Some ops" "tab ops (key pkr) = Inr ks"
      "slot pkr = OVPN_KEY_SLOT_INVALID n" "e = EINVAL" "cs' = cs"
  using assms
  by (auto simp: ovpn_crypto_state_reset_def ovpn_ks_new_def reset_put_old_def Let_def
      split: option.splits sum.splits ovpn_key_slot.splits prod.splits)

lemma reset_put_old_ids:
  assumes "reset_put_old old c m = Some (r, c', m')"
  shows "c' = c \<and> r = RET_OK \<and>
         map_option ks_remote_peer_id (ks_at m' b) = map_option ks_remote_peer_id (ks_at m b) \<and>
         map_option ks_key_id (ks_at m' b) = map_option ks_key_id (ks_at m b)"
  using assms put_ids [of m _ m' b]
  by (auto simp: reset_put_old_def split: option.splits)

lemma put_old_steps:
  assumes "reset_put_old old c m = Some (r, c', m')"
  shows "reset_put_old_steps old c m = (if old = None then [] else [(c, m')])"
    and "old = None \<Longrightarrow> m' = m"
  using assms by (auto simp: reset_put_old_def reset_put_old_steps_def split: option.splits)

lemma reset_ok_cases:
  assumes "ovpn_crypto_state_reset tab cs m pkr = Some (RET_OK, cs', m')"
  obtains ops ks0 where "cs_ops cs = Some ops" "tab ops (key pkr) = Inr ks0"
      "slot pkr = OVPN_KEY_SLOT_PRIMARY" "cs' = cs\<lparr>primary := Some (length (ks_heap m))\<rparr>"
      "reset_put_old (primary cs) cs'
         (m\<lparr>ks_heap := ks_heap m @ [Some (ks0\<lparr>ks_remote_peer_id := remote_peer_id pkr\<rparr>)]\<rparr>) =
       Some (RET_OK, cs', m')"
  | ops ks0 where "cs_ops cs = Some ops" "tab ops (key pkr) = Inr ks0"
      "slot pkr = OVPN_KEY_SLOT_SECONDARY" "cs' = cs\<lparr>secondary := Some (length (ks_heap m))\<rparr>"
      "reset_put_old (secondary cs) cs'
         (m\<lparr>ks_heap := ks_heap m @ [Some (ks0\<lparr>ks_remote_peer_id := remote_peer_id pkr\<rparr>)]\<rparr>) =
       Some (RET_OK, cs', m')"
proof -
  from assms obtain ops where ops: "cs_ops cs = Some ops"
    by (auto simp: ovpn_crypto_state_reset_def split: option.splits)
  from assms ops obtain ks0 where ks0: "tab ops (key pkr) = Inr ks0"
    by (cases "tab ops (key pkr)") (auto simp: ovpn_crypto_state_reset_def ovpn_ks_new_def)
  let ?m2 = "m\<lparr>ks_heap := ks_heap m @ [Some (ks0\<lparr>ks_remote_peer_id := remote_peer_id pkr\<rparr>)]\<rparr>"
  have m2: "ks_set_remote_peer_id (snd (ks_alloc m ks0)) (length (ks_heap m)) (remote_peer_id pkr) = ?m2"
    by (rule stamp_alloc)
  show thesis
  proof (cases "slot pkr")
    case OVPN_KEY_SLOT_PRIMARY
    with assms ops ks0 m2
    have r: "reset_put_old (primary cs) (cs\<lparr>primary := Some (length (ks_heap m))\<rparr>) ?m2 =
        Some (RET_OK, cs', m')"
      by (simp add: ovpn_crypto_state_reset_def ovpn_ks_new_def ks_alloc_def)
    then have "cs' = cs\<lparr>primary := Some (length (ks_heap m))\<rparr>"
      by (auto simp: reset_put_old_def split: option.splits)
    with r ops ks0 OVPN_KEY_SLOT_PRIMARY show ?thesis
      using that(1) by simp
  next
    case OVPN_KEY_SLOT_SECONDARY
    with assms ops ks0 m2
    have r: "reset_put_old (secondary cs) (cs\<lparr>secondary := Some (length (ks_heap m))\<rparr>) ?m2 =
        Some (RET_OK, cs', m')"
      by (simp add: ovpn_crypto_state_reset_def ovpn_ks_new_def ks_alloc_def)
    then have "cs' = cs\<lparr>secondary := Some (length (ks_heap m))\<rparr>"
      by (auto simp: reset_put_old_def split: option.splits)
    with r ops ks0 OVPN_KEY_SLOT_SECONDARY show ?thesis
      using that(2) by simp
  next
    case (OVPN_KEY_SLOT_INVALID n)
    with assms ops ks0 show ?thesis
      by (auto simp: ovpn_crypto_state_reset_def ovpn_ks_new_def Let_def
          split: option.splits prod.splits)
  qed
qed

lemma reset_ok_new_slot:
  assumes "ovpn_crypto_state_reset tab cs m pkr = Some (RET_OK, cs', m')"
  shows "cs_slot cs' (slot pkr) = Some (length (ks_heap m)) \<and>
         map_option ks_remote_peer_id (ks_at m' (length (ks_heap m))) = Some (remote_peer_id pkr)"
  using assms
proof (cases rule: reset_ok_cases)
  case (1 ops ks0)
  from reset_put_old_ids [OF 1(5), of "length (ks_heap m)"] 1(3,4) show ?thesis
    by (simp add: cs_slot_def ks_at_append)
next
  case (2 ops ks0)
  from reset_put_old_ids [OF 2(5), of "length (ks_heap m)"] 2(3,4) show ?thesis
    by (simp add: cs_slot_def ks_at_append)
qed

subsection \<open>The scenarios, evaluated\<close>

lemma K1_fields: "cipher_alg K1 = OVPN_CIPHER_ALG_AES_GCM" "key_id K1 = 1"
  by (simp_all add: K1_def)

lemma S1_pkr_fields:
  "slot S1_pkr = OVPN_KEY_SLOT_PRIMARY" "crypto_family S1_pkr = OVPN_CRYPTO_FAMILY_AEAD"
  "remote_peer_id S1_pkr = 2" "key S1_pkr = K1"
  by (simp_all add: S1_pkr_def)

lemma aead_tables_K1: "aead_tables ops K1 = Inr (S1_slot\<lparr>ks_remote_peer_id := 0\<rparr>)"
  by (simp add: aead_tables_def ovpn_aead_new_def ovpn_keys_familiy_get_def K1_fields S1_slot_def)

lemma aead_tables_refcount: "aead_tables ops kc = Inr ks \<Longrightarrow> ks_refcount ks = 1"
  by (auto simp: aead_tables_def ovpn_aead_new_def split: if_splits option.splits)

lemma aead_tables_key_id: "aead_tables ops kc = Inr ks \<Longrightarrow> ks_key_id ks = key_id kc"
  by (auto simp: aead_tables_def ovpn_aead_new_def split: if_splits option.splits)

lemma S1_select:
  "ovpn_crypto_state_select_family ovpn_crypto_state_init S1_pkr = (RET_OK, cs_aead)"
  by (simp add: ovpn_crypto_state_select_family_def ovpn_crypto_select_family_def S1_pkr_fields
      cs_aead_def ovpn_crypto_state_init_def)

lemma S1_reset:
  "ovpn_crypto_state_reset aead_tables cs_aead ks_mem_empty S1_pkr = Some (RET_OK, S1_cs, S1_mem)"
  by (simp add: ovpn_crypto_state_reset_def ovpn_ks_new_def S1_pkr_fields aead_tables_K1
      cs_aead_def ovpn_crypto_state_init_def ks_mem_empty_def ks_alloc_def
      ks_set_remote_peer_id_def ks_at_def ks_store_def reset_put_old_def S1_cs_def S1_mem_def
      S1_slot_def)

lemma bad_slot_reset:
  "ovpn_crypto_state_reset aead_tables S1_cs S1_mem bad_slot_pkr =
     Some (RET_ERR EINVAL, S1_cs, S1_mem_rejected)"
  by (simp add: ovpn_crypto_state_reset_def ovpn_ks_new_def S1_pkr_fields aead_tables_K1
      bad_slot_pkr_def cs_aead_def ovpn_crypto_state_init_def ks_alloc_def
      ks_set_remote_peer_id_def ks_at_def ks_store_def ovpn_crypto_key_slot_put_def
      ovpn_crypto_key_slot_release_def S1_cs_def S1_mem_def S1_mem_rejected_def S1_slot_def)

subsection \<open>Claims about reset and select_family\<close>

text \<open>
  Claim C3. \<^verbatim>\<open>ovpn_crypto_state_reset\<close> is all-or-nothing. Whenever it returns an error
  (the construction of the key slot failed, or the slot identifier is invalid), the
  crypto state is the one it was called with, so both slots point where they pointed,
  and every key slot that existed before the call is untouched. Nothing the call
  allocated remains either: provided the dispatch table builds key slots that carry one
  reference (the one the crypto state is to own), every address holds, once the grace
  period has passed, what it would hold had the call not been made.
\<close>

theorem reset_all_or_nothing:
  assumes err: "ovpn_crypto_state_reset tab cs m pkr = Some (RET_ERR e, cs', m')"
  shows "cs' = cs \<and> take (length (ks_heap m)) (ks_heap m') = ks_heap m \<and>
         ((\<forall>ops ks. cs_ops cs = Some ops \<longrightarrow> tab ops (key pkr) = Inr ks \<longrightarrow> ks_refcount ks = 1) \<longrightarrow>
          (\<forall>a. ks_at (rcu_grace_period m') a = ks_at (rcu_grace_period m) a))"
  using err
proof (cases rule: reset_error_cases)
  case (1 ops)
  then show ?thesis by simp
next
  case (2 ops ks n)
  let ?n = "length (ks_heap m)"
  have "ovpn_crypto_state_reset tab cs m pkr =
      Some (RET_ERR EINVAL, cs,
        m\<lparr>ks_heap := ks_heap m @ [Some (ks\<lparr>ks_refcount := ks_refcount ks - 1,
                                            ks_remote_peer_id := remote_peer_id pkr\<rparr>)],
          rcu_pending := (if ks_refcount ks = 1 then rcu_pending m @ [?n] else rcu_pending m)\<rparr>)"
    using 2(1,3,2) by (rule reset_invalid_built)
  with err have m': "m' = m\<lparr>ks_heap := ks_heap m @ [Some (ks\<lparr>ks_refcount := ks_refcount ks - 1,
                                            ks_remote_peer_id := remote_peer_id pkr\<rparr>)],
          rcu_pending := (if ks_refcount ks = 1 then rcu_pending m @ [?n] else rcu_pending m)\<rparr>"
    by simp
  have "ks_at (rcu_grace_period m') a = ks_at (rcu_grace_period m) a"
    if "ks_refcount ks = 1" for a
    unfolding ks_at_grace using that by (auto simp: m' ks_at_def nth_append)
  with 2(1,2,5) m' show ?thesis by simp
qed

theorem reset_all_or_nothing_witness:
  "ovpn_crypto_state_reset aead_tables S1_cs S1_mem bad_slot_pkr =
     Some (RET_ERR EINVAL, S1_cs, S1_mem_rejected) \<and>
   take (length (ks_heap S1_mem)) (ks_heap S1_mem_rejected) = ks_heap S1_mem \<and>
   (\<forall>a. ks_at (rcu_grace_period S1_mem_rejected) a = ks_at (rcu_grace_period S1_mem) a)"
proof -
  have one: "\<forall>ops ks. cs_ops S1_cs = Some ops \<longrightarrow> aead_tables ops (key bad_slot_pkr) = Inr ks \<longrightarrow>
               ks_refcount ks = 1"
    using aead_tables_refcount by blast
  show ?thesis
    using reset_all_or_nothing [OF bad_slot_reset] one bad_slot_reset by blast
qed

text \<open>
  Claim C10. \<^verbatim>\<open>ovpn_crypto_state_reset\<close> checks the slot identifier only after it has built
  the new key slot. For an invalid identifier the outcome is decided by the construction:
  if it fails, its error is what the call returns, and nothing has changed; if it
  succeeds, the call returns \<open>EINVAL\<close>, the crypto state is untouched, and the memory has
  gained the slot just built, stamped with the remote peer id and put again (its count
  lowered by one, and its destruction queued when that was its only reference).
\<close>

theorem reset_invalid_slot_checked_after_build:
  assumes "cs_ops cs = Some ops" and "slot pkr = OVPN_KEY_SLOT_INVALID n"
  shows "ovpn_crypto_state_reset tab cs m pkr =
     (case tab ops (key pkr) of
        Inl e \<Rightarrow> Some (RET_ERR e, cs, m)
      | Inr ks \<Rightarrow>
          Some (RET_ERR EINVAL, cs,
            m\<lparr>ks_heap := ks_heap m @
                 [Some (ks\<lparr>ks_refcount := ks_refcount ks - 1,
                           ks_remote_peer_id := remote_peer_id pkr\<rparr>)],
              rcu_pending := (if ks_refcount ks = 1 then rcu_pending m @ [length (ks_heap m)]
                              else rcu_pending m)\<rparr>))"
proof (cases "tab ops (key pkr)")
  case (Inl e)
  with assms(1) show ?thesis
    by (simp add: ovpn_crypto_state_reset_def ovpn_ks_new_def)
next
  case (Inr ks)
  with reset_invalid_built [of cs ops pkr n tab ks m] assms show ?thesis by simp
qed

theorem reset_invalid_slot_checked_after_build_witness:
  "ovpn_crypto_state_reset aead_tables cs_aead ks_mem_empty (S3_pkr\<lparr>slot := OVPN_KEY_SLOT_INVALID 7\<rparr>) =
     Some (RET_ERR EOPNOTSUPP, cs_aead, ks_mem_empty) \<and>
   ovpn_crypto_state_reset aead_tables cs_aead ks_mem_empty (S1_pkr\<lparr>slot := OVPN_KEY_SLOT_INVALID 7\<rparr>) =
     Some (RET_ERR EINVAL, cs_aead,
       \<lparr>ks_heap = [Some (S1_slot\<lparr>ks_refcount := 0\<rparr>)], rcu_pending = [0]\<rparr>)"
proof -
  have ops: "cs_ops cs_aead = Some ovpn_aead_ops"
    by (simp add: cs_aead_def)
  have s3: "slot (S3_pkr\<lparr>slot := OVPN_KEY_SLOT_INVALID 7\<rparr>) = OVPN_KEY_SLOT_INVALID 7"
    and s1: "slot (S1_pkr\<lparr>slot := OVPN_KEY_SLOT_INVALID 7\<rparr>) = OVPN_KEY_SLOT_INVALID 7"
    by simp_all
  have k3: "aead_tables ovpn_aead_ops (key S3_pkr) = Inl EOPNOTSUPP"
    by (simp add: aead_tables_def ovpn_aead_new_def ovpn_keys_familiy_get_def S3_pkr_def)
  show ?thesis
    using reset_invalid_slot_checked_after_build [OF ops s3, of aead_tables ks_mem_empty]
      reset_invalid_slot_checked_after_build [OF ops s1, of aead_tables ks_mem_empty]
    by (simp add: k3 aead_tables_K1 ks_mem_empty_def S1_slot_def S1_pkr_fields)
qed

text \<open>
  Claim C1. After \<^verbatim>\<open>ovpn_crypto_state_select_family\<close> has succeeded (which binds the AEAD
  table, the only one there is), a reset whose key configuration maps to another family
  (AES-CBC maps to CBC-HMAC, an unknown algorithm to the undefined family) fails with
  \<open>EOPNOTSUPP\<close>, and the crypto state and the key-slot memory are the ones the call was
  made with. The error is the one the AEAD family's \<^verbatim>\<open>new\<close> reports; that function is
  modelled from the specification.
\<close>

theorem reset_other_family_unsupported:
  assumes sel: "ovpn_crypto_state_select_family cs0 pkr0 = (RET_OK, cs)"
    and tab: "tab ovpn_aead_ops = ovpn_aead_new ctx_err"
    and fam: "ovpn_keys_familiy_get (key pkr) \<noteq> OVPN_CRYPTO_FAMILY_AEAD"
  shows "ovpn_crypto_state_reset tab cs m pkr = Some (RET_ERR EOPNOTSUPP, cs, m)"
proof -
  from sel have "cs_ops cs = Some ovpn_aead_ops"
    by (auto simp: ovpn_crypto_state_select_family_def ovpn_crypto_select_family_def
        split: option.splits if_splits ovpn_crypto_families.splits)
  moreover from tab fam have "tab ovpn_aead_ops (key pkr) = Inl EOPNOTSUPP"
    by (simp add: ovpn_aead_new_def)
  ultimately show ?thesis
    by (simp add: ovpn_crypto_state_reset_def ovpn_ks_new_def)
qed

theorem reset_other_family_unsupported_witness:
  "ovpn_crypto_state_select_family ovpn_crypto_state_init S1_pkr = (RET_OK, cs_aead) \<and>
   ovpn_crypto_state_reset aead_tables cs_aead ks_mem_empty S1_pkr = Some (RET_OK, S1_cs, S1_mem) \<and>
   ovpn_crypto_state_select_family S1_cs S1_pkr = (RET_OK, S1_cs) \<and>
   cipher_alg (key S3_pkr) = OVPN_CIPHER_ALG_AES_CBC \<and>
   ovpn_crypto_state_reset aead_tables S1_cs S1_mem S3_pkr = Some (RET_ERR EOPNOTSUPP, S1_cs, S1_mem)"
proof -
  have sel: "ovpn_crypto_state_select_family S1_cs S1_pkr = (RET_OK, S1_cs)"
    by (simp add: ovpn_crypto_state_select_family_def ovpn_crypto_select_family_def S1_pkr_fields
        S1_cs_def cs_aead_def ovpn_crypto_state_init_def)
  have tab: "aead_tables ovpn_aead_ops = ovpn_aead_new (\<lambda>_. None)"
    by (simp add: aead_tables_def)
  have alg: "cipher_alg (key S3_pkr) = OVPN_CIPHER_ALG_AES_CBC"
    by (simp add: S3_pkr_def)
  then have fam: "ovpn_keys_familiy_get (key S3_pkr) \<noteq> OVPN_CRYPTO_FAMILY_AEAD"
    by (simp add: ovpn_keys_familiy_get_def)
  show ?thesis
    using reset_other_family_unsupported
        [where tab = aead_tables and ctx_err = "\<lambda>_. None", OF sel tab fam, of S1_mem]
      sel alg S1_select S1_reset
    by simp
qed

text \<open>
  Claim C2, as the code has it. Whatever the crypto state, \<^verbatim>\<open>ovpn_crypto_state_select_family\<close>
  fails with \<open>EOPNOTSUPP\<close> for every family but AEAD (undefined, CBC-HMAC, or a value that is
  no enumerator) and leaves the state as it was; once it has succeeded, which binds the
  AEAD table, the same request succeeds again and changes nothing; and a request for AEAD
  on a state bound to a table at another address fails with \<open>EINVAL\<close> (the family has
  changed) and leaves the state, the bound table included, as it was.
\<close>

theorem select_family_binding:
  "(crypto_family pkr \<noteq> OVPN_CRYPTO_FAMILY_AEAD \<longrightarrow>
      ovpn_crypto_state_select_family cs pkr = (RET_ERR EOPNOTSUPP, cs)) \<and>
   (ovpn_crypto_state_select_family cs pkr = (RET_OK, cs') \<longrightarrow>
      cs_ops cs' = Some ovpn_aead_ops \<and>
      ovpn_crypto_state_select_family cs' pkr = (RET_OK, cs')) \<and>
   (crypto_family pkr = OVPN_CRYPTO_FAMILY_AEAD \<longrightarrow> cs_ops cs = Some p \<longrightarrow> p \<noteq> ovpn_aead_ops \<longrightarrow>
      ovpn_crypto_state_select_family cs pkr = (RET_ERR EINVAL, cs))"
  by (cases "crypto_family pkr")
    (auto simp: ovpn_crypto_state_select_family_def ovpn_crypto_select_family_def
      split: if_splits)

theorem select_family_binding_witness:
  "ovpn_crypto_state_select_family S1_cs S3_pkr = (RET_ERR EOPNOTSUPP, S1_cs) \<and>
   ovpn_crypto_state_select_family ovpn_crypto_state_init S1_pkr = (RET_OK, cs_aead) \<and>
   ovpn_crypto_state_select_family cs_aead S1_pkr = (RET_OK, cs_aead) \<and>
   ovpn_crypto_state_select_family cs_other S1_pkr = (RET_ERR EINVAL, cs_other)"
proof -
  have f3: "crypto_family S3_pkr \<noteq> OVPN_CRYPTO_FAMILY_AEAD"
    by (simp add: S3_pkr_def)
  have ops: "cs_ops cs_other = Some (ovpn_ops_at 0)" "ovpn_ops_at 0 \<noteq> ovpn_aead_ops"
    by (simp_all add: cs_other_def)
  show ?thesis
    using select_family_binding [of S3_pkr S1_cs S1_cs "ovpn_ops_at 0"]
      select_family_binding [of S1_pkr ovpn_crypto_state_init cs_aead "ovpn_ops_at 0"]
      select_family_binding [of S1_pkr cs_other cs_other "ovpn_ops_at 0"]
      f3 ops S1_select
    by (simp add: S1_pkr_fields)
qed

text \<open>
  Claim C2 as stated fails for CBC-HMAC, a family the interface recognises: after AEAD
  has been selected, selecting CBC-HMAC is refused with \<open>EOPNOTSUPP\<close> (unsupported), not
  with \<open>EINVAL\<close> (family-changed).
\<close>

theorem select_family_cbc_hmac_counterexample:
  "ovpn_crypto_state_select_family ovpn_crypto_state_init S1_pkr = (RET_OK, cs_aead) \<and>
   crypto_family S3_pkr = OVPN_CRYPTO_FAMILY_CBC_HMAC \<and>
   ovpn_crypto_state_select_family cs_aead S3_pkr = (RET_ERR EOPNOTSUPP, cs_aead) \<and>
   ovpn_crypto_state_select_family cs_aead S3_pkr \<noteq> (RET_ERR EINVAL, cs_aead)"
  by (simp add: S1_pkr_fields S3_pkr_def cs_aead_def ovpn_crypto_state_init_def
      ovpn_crypto_state_select_family_def ovpn_crypto_select_family_def)

subsection \<open>The remote peer id of an installed slot\<close>

lemma reset_steps_ok:
  assumes ok: "ovpn_crypto_state_reset tab cs m pkr = Some (RET_OK, cs', m')"
    and valid: "cs_valid cs m"
  shows "(\<forall>(c, h) \<in> set (ovpn_crypto_state_reset_steps tab cs m pkr).
            cs_slot c (slot pkr) = Some (length (ks_heap m)) \<longrightarrow>
            map_option ks_remote_peer_id (ks_at h (length (ks_heap m))) =
              Some (remote_peer_id pkr)) \<and>
         last ((cs, m) # ovpn_crypto_state_reset_steps tab cs m pkr) = (cs', m')"
  using ok
proof (cases rule: reset_ok_cases)
  case (1 ops ks0)
  let ?n = "length (ks_heap m)"
  let ?m2 = "m\<lparr>ks_heap := ks_heap m @ [Some (ks0\<lparr>ks_remote_peer_id := remote_peer_id pkr\<rparr>)]\<rparr>"
  have steps: "ovpn_crypto_state_reset_steps tab cs m pkr =
      (cs, snd (ks_alloc m ks0)) # (cs, ?m2) # (cs', ?m2) #
      (if primary cs = None then [] else [(cs', m')])"
    using 1(1-4) put_old_steps(1) [OF 1(5)] stamp_alloc [of m ks0 "remote_peer_id pkr"]
    by (simp add: ovpn_crypto_state_reset_steps_def ovpn_ks_new_def ks_alloc_def Let_def)
  have old: "cs_slot cs (slot pkr) \<noteq> Some ?n"
    using valid 1(3) valid_not_fresh [of m "primary cs"] by (simp add: cs_valid_def cs_slot_def)
  have fin: "map_option ks_remote_peer_id (ks_at m' ?n) = Some (remote_peer_id pkr)"
    using reset_ok_new_slot [OF ok] by simp
  have "primary cs = None \<Longrightarrow> m' = ?m2"
    using put_old_steps(2) [OF 1(5)] by simp
  with steps old fin show ?thesis
    by (auto simp: ks_at_append)
next
  case (2 ops ks0)
  let ?n = "length (ks_heap m)"
  let ?m2 = "m\<lparr>ks_heap := ks_heap m @ [Some (ks0\<lparr>ks_remote_peer_id := remote_peer_id pkr\<rparr>)]\<rparr>"
  have steps: "ovpn_crypto_state_reset_steps tab cs m pkr =
      (cs, snd (ks_alloc m ks0)) # (cs, ?m2) # (cs', ?m2) #
      (if secondary cs = None then [] else [(cs', m')])"
    using 2(1-4) put_old_steps(1) [OF 2(5)] stamp_alloc [of m ks0 "remote_peer_id pkr"]
    by (simp add: ovpn_crypto_state_reset_steps_def ovpn_ks_new_def ks_alloc_def Let_def)
  have old: "cs_slot cs (slot pkr) \<noteq> Some ?n"
    using valid 2(3) valid_not_fresh [of m "secondary cs"] by (simp add: cs_valid_def cs_slot_def)
  have fin: "map_option ks_remote_peer_id (ks_at m' ?n) = Some (remote_peer_id pkr)"
    using reset_ok_new_slot [OF ok] by simp
  have "secondary cs = None \<Longrightarrow> m' = ?m2"
    using put_old_steps(2) [OF 2(5)] by simp
  with steps old fin show ?thesis
    by (auto simp: ks_at_append)
qed

lemma lookup_after_reset_primary:
  assumes ok: "ovpn_crypto_state_reset tab cs m pkr = Some (RET_OK, cs', m')"
    and prim: "slot pkr = OVPN_KEY_SLOT_PRIMARY"
    and kid: "\<forall>ops ks0. tab ops (key pkr) = Inr ks0 \<longrightarrow> ks_key_id ks0 = key_id (key pkr)"
  shows "\<exists>m''. crypto_state_lookup cs' m' (key_id (key pkr)) = Inr (length (ks_heap m), m'') \<and>
           map_option ks_remote_peer_id (ks_at m'' (length (ks_heap m))) =
             Some (remote_peer_id pkr)"
  using ok
proof (cases rule: reset_ok_cases)
  case (1 ops ks0)
  let ?n = "length (ks_heap m)"
  from reset_put_old_ids [OF 1(5), of ?n] kid 1(2)
  have ids: "map_option ks_remote_peer_id (ks_at m' ?n) = Some (remote_peer_id pkr)"
    "map_option ks_key_id (ks_at m' ?n) = Some (key_id (key pkr))"
    by (auto simp: ks_at_append)
  then obtain ks where ks: "ks_at m' ?n = Some ks" "ks_remote_peer_id ks = remote_peer_id pkr"
    "ks_key_id ks = key_id (key pkr)"
    by auto
  have "crypto_state_lookup cs' m' (key_id (key pkr)) = Inr (?n, ks_hold m' ?n)"
    using ks 1(4) by (simp add: crypto_state_lookup_def slot_with_key_def)
  moreover have "map_option ks_remote_peer_id (ks_at (ks_hold m' ?n) ?n) = Some (remote_peer_id pkr)"
    using ks by (auto simp: ks_hold_def ks_store_def ks_at_def split: if_splits)
  ultimately show ?thesis by blast
next
  case (2 ops ks0)
  with prim show ?thesis by simp
qed

text \<open>
  In program order the pointer of the slot a successful reset installs into goes from
  the old key slot straight to the new one: no state in between shows \<^verbatim>\<open>NULL\<close> unless the
  slot was empty before, and the old pointer does not come back.
\<close>

lemma reset_steps_pointer_values:
  assumes ok: "ovpn_crypto_state_reset tab cs m pkr = Some (RET_OK, cs', m')"
  shows "map (\<lambda>(c, h). cs_slot c (slot pkr)) (ovpn_crypto_state_reset_steps tab cs m pkr) =
         [cs_slot cs (slot pkr), cs_slot cs (slot pkr), Some (length (ks_heap m))] @
         (if cs_slot cs (slot pkr) = None then [] else [Some (length (ks_heap m))])"
  using ok
proof (cases rule: reset_ok_cases)
  case (1 ops ks0)
  with put_old_steps(1) [OF 1(5)] stamp_alloc [of m ks0 "remote_peer_id pkr"] show ?thesis
    by (simp add: ovpn_crypto_state_reset_steps_def ovpn_ks_new_def ks_alloc_def Let_def
        cs_slot_def)
next
  case (2 ops ks0)
  with put_old_steps(1) [OF 2(5)] stamp_alloc [of m ks0 "remote_peer_id pkr"] show ?thesis
    by (simp add: ovpn_crypto_state_reset_steps_def ovpn_ks_new_def ks_alloc_def Let_def
        cs_slot_def)
qed

text \<open>
  The states a successful reset passes through, written out: the new key slot is built
  with the pointer of the slot still the old one, then the remote peer id is stored, then
  the pointer is replaced with the memory as the store left it, then the old key slot,
  if there was one, is put.
\<close>

lemma reset_steps_shape:
  assumes ok: "ovpn_crypto_state_reset tab cs m pkr = Some (RET_OK, cs', m')"
  shows "\<exists>ops ks0 m1 m2.
           cs_ops cs = Some ops \<and> tab ops (key pkr) = Inr ks0 \<and>
           m1 = m\<lparr>ks_heap := ks_heap m @ [Some ks0]\<rparr> \<and>
           m2 = m\<lparr>ks_heap := ks_heap m @ [Some (ks0\<lparr>ks_remote_peer_id := remote_peer_id pkr\<rparr>)]\<rparr> \<and>
           ovpn_crypto_state_reset_steps tab cs m pkr =
             (cs, m1) # (cs, m2) # (cs', m2) #
             (if cs_slot cs (slot pkr) = None then [] else [(cs', m')]) \<and>
           (case cs_slot cs (slot pkr) of
              None \<Rightarrow> m' = m2
            | Some old \<Rightarrow> ovpn_crypto_key_slot_put m2 old = Some m')"
  using ok
proof (cases rule: reset_ok_cases)
  case (1 ops ks0)
  let ?m2 = "m\<lparr>ks_heap := ks_heap m @ [Some (ks0\<lparr>ks_remote_peer_id := remote_peer_id pkr\<rparr>)]\<rparr>"
  have steps: "ovpn_crypto_state_reset_steps tab cs m pkr =
      (cs, m\<lparr>ks_heap := ks_heap m @ [Some ks0]\<rparr>) # (cs, ?m2) # (cs', ?m2) #
      (if cs_slot cs (slot pkr) = None then [] else [(cs', m')])"
    using 1(1-4) put_old_steps(1) [OF 1(5)] stamp_alloc [of m ks0 "remote_peer_id pkr"]
    by (simp add: ovpn_crypto_state_reset_steps_def ovpn_ks_new_def ks_alloc_def Let_def
        cs_slot_def)
  have "case cs_slot cs (slot pkr) of None \<Rightarrow> m' = ?m2
        | Some old \<Rightarrow> ovpn_crypto_key_slot_put ?m2 old = Some m'"
    using 1(3,5) by (auto simp: reset_put_old_def cs_slot_def split: option.splits)
  with steps 1(1,2) show ?thesis by blast
next
  case (2 ops ks0)
  let ?m2 = "m\<lparr>ks_heap := ks_heap m @ [Some (ks0\<lparr>ks_remote_peer_id := remote_peer_id pkr\<rparr>)]\<rparr>"
  have steps: "ovpn_crypto_state_reset_steps tab cs m pkr =
      (cs, m\<lparr>ks_heap := ks_heap m @ [Some ks0]\<rparr>) # (cs, ?m2) # (cs', ?m2) #
      (if cs_slot cs (slot pkr) = None then [] else [(cs', m')])"
    using 2(1-4) put_old_steps(1) [OF 2(5)] stamp_alloc [of m ks0 "remote_peer_id pkr"]
    by (simp add: ovpn_crypto_state_reset_steps_def ovpn_ks_new_def ks_alloc_def Let_def
        cs_slot_def)
  have "case cs_slot cs (slot pkr) of None \<Rightarrow> m' = ?m2
        | Some old \<Rightarrow> ovpn_crypto_key_slot_put ?m2 old = Some m'"
    using 2(3,5) by (auto simp: reset_put_old_def cs_slot_def split: option.splits)
  with steps 2(1,2) show ?thesis by blast
qed

lemma reset_old_pointer_not_new:
  assumes "cs_valid cs m"
  shows "cs_slot cs s \<noteq> Some (length (ks_heap m))"
  using assms valid_not_fresh [of m "primary cs"] valid_not_fresh [of m "secondary cs"]
  by (cases s) (simp_all add: cs_valid_def cs_slot_def)

text \<open>
  Claim C6. After a successful \<^verbatim>\<open>ovpn_crypto_state_reset\<close> the slot named by the request
  points to the key slot the call built, and that key slot carries the remote peer id of
  the request. The field is written before the pointer is published: the call passes
  through exactly these states, in this order: the new key slot as the family built it,
  with the slot still pointing where it pointed; the same with the remote peer id stored
  in the new key slot; the slot pointing to the new key slot, the memory being the one
  the store left; and, when the slot was not empty, the old key slot put. The last of
  them is the state the call returns. When the crypto state the call starts from is well
  formed (its pointers are null or valid), the old pointer is not the new key slot, and
  every state whose slot pointer shows the new key slot finds the remote peer id in
  place. When the request is for the primary slot and the family gives a key slot the
  key id of its configuration, a lookup by that key id returns the new key slot, with
  the remote peer id of the request.
\<close>

theorem reset_publishes_remote_peer_id:
  assumes ok: "ovpn_crypto_state_reset tab cs m pkr = Some (RET_OK, cs', m')"
  shows "cs_slot cs' (slot pkr) = Some (length (ks_heap m)) \<and>
         (\<exists>ks. ks_at m' (length (ks_heap m)) = Some ks \<and>
               ks_remote_peer_id ks = remote_peer_id pkr) \<and>
         (\<exists>ops ks0 m1 m2.
            cs_ops cs = Some ops \<and> tab ops (key pkr) = Inr ks0 \<and>
            m1 = m\<lparr>ks_heap := ks_heap m @ [Some ks0]\<rparr> \<and>
            m2 = m\<lparr>ks_heap := ks_heap m @
                   [Some (ks0\<lparr>ks_remote_peer_id := remote_peer_id pkr\<rparr>)]\<rparr> \<and>
            ovpn_crypto_state_reset_steps tab cs m pkr =
              (cs, m1) # (cs, m2) # (cs', m2) #
              (if cs_slot cs (slot pkr) = None then [] else [(cs', m')]) \<and>
            (case cs_slot cs (slot pkr) of
               None \<Rightarrow> m' = m2
             | Some old \<Rightarrow> ovpn_crypto_key_slot_put m2 old = Some m')) \<and>
         last ((cs, m) # ovpn_crypto_state_reset_steps tab cs m pkr) = (cs', m') \<and>
         (cs_valid cs m \<longrightarrow>
            cs_slot cs (slot pkr) \<noteq> Some (length (ks_heap m)) \<and>
            (\<forall>(c, h) \<in> set (ovpn_crypto_state_reset_steps tab cs m pkr).
               cs_slot c (slot pkr) = Some (length (ks_heap m)) \<longrightarrow>
               (\<exists>ks. ks_at h (length (ks_heap m)) = Some ks \<and>
                     ks_remote_peer_id ks = remote_peer_id pkr))) \<and>
         (slot pkr = OVPN_KEY_SLOT_PRIMARY \<longrightarrow>
          (\<forall>ops ks0. tab ops (key pkr) = Inr ks0 \<longrightarrow> ks_key_id ks0 = key_id (key pkr)) \<longrightarrow>
          (\<exists>m'' ks. crypto_state_lookup cs' m' (key_id (key pkr)) =
                        Inr (length (ks_heap m), m'') \<and>
                     ks_at m'' (length (ks_heap m)) = Some ks \<and>
                     ks_remote_peer_id ks = remote_peer_id pkr))"
proof -
  from reset_steps_shape [OF ok] obtain ops ks0 m1 m2 where shape:
    "cs_ops cs = Some ops" "tab ops (key pkr) = Inr ks0"
    "m1 = m\<lparr>ks_heap := ks_heap m @ [Some ks0]\<rparr>"
    "m2 = m\<lparr>ks_heap := ks_heap m @ [Some (ks0\<lparr>ks_remote_peer_id := remote_peer_id pkr\<rparr>)]\<rparr>"
    "ovpn_crypto_state_reset_steps tab cs m pkr =
       (cs, m1) # (cs, m2) # (cs', m2) #
       (if cs_slot cs (slot pkr) = None then [] else [(cs', m')])"
    "case cs_slot cs (slot pkr) of None \<Rightarrow> m' = m2
     | Some old \<Rightarrow> ovpn_crypto_key_slot_put m2 old = Some m'"
    by blast
  have last: "last ((cs, m) # ovpn_crypto_state_reset_steps tab cs m pkr) = (cs', m')"
    using shape(5,6) by (simp split: option.splits)
  have trace: "cs_valid cs m \<longrightarrow>
      cs_slot cs (slot pkr) \<noteq> Some (length (ks_heap m)) \<and>
      (\<forall>(c, h) \<in> set (ovpn_crypto_state_reset_steps tab cs m pkr).
         cs_slot c (slot pkr) = Some (length (ks_heap m)) \<longrightarrow>
         (\<exists>ks. ks_at h (length (ks_heap m)) = Some ks \<and>
               ks_remote_peer_id ks = remote_peer_id pkr))"
    using reset_steps_ok [OF ok] reset_old_pointer_not_new [of cs m "slot pkr"]
    by (simp add: map_option_eq_Some case_prod_unfold)
  have look: "slot pkr = OVPN_KEY_SLOT_PRIMARY \<longrightarrow>
      (\<forall>ops ks0. tab ops (key pkr) = Inr ks0 \<longrightarrow> ks_key_id ks0 = key_id (key pkr)) \<longrightarrow>
      (\<exists>m'' ks. crypto_state_lookup cs' m' (key_id (key pkr)) = Inr (length (ks_heap m), m'') \<and>
                 ks_at m'' (length (ks_heap m)) = Some ks \<and>
                 ks_remote_peer_id ks = remote_peer_id pkr)"
    using lookup_after_reset_primary [OF ok] by (simp add: map_option_eq_Some)
  from reset_ok_new_slot [OF ok] have fin:
    "cs_slot cs' (slot pkr) = Some (length (ks_heap m))"
    "\<exists>ks. ks_at m' (length (ks_heap m)) = Some ks \<and> ks_remote_peer_id ks = remote_peer_id pkr"
    by (simp_all add: map_option_eq_Some)
  from shape have "\<exists>ops ks0 m1 m2.
            cs_ops cs = Some ops \<and> tab ops (key pkr) = Inr ks0 \<and>
            m1 = m\<lparr>ks_heap := ks_heap m @ [Some ks0]\<rparr> \<and>
            m2 = m\<lparr>ks_heap := ks_heap m @
                   [Some (ks0\<lparr>ks_remote_peer_id := remote_peer_id pkr\<rparr>)]\<rparr> \<and>
            ovpn_crypto_state_reset_steps tab cs m pkr =
              (cs, m1) # (cs, m2) # (cs', m2) #
              (if cs_slot cs (slot pkr) = None then [] else [(cs', m')]) \<and>
            (case cs_slot cs (slot pkr) of
               None \<Rightarrow> m' = m2
             | Some old \<Rightarrow> ovpn_crypto_key_slot_put m2 old = Some m')"
    by blast
  with fin last trace look show ?thesis by blast
qed

theorem reset_publishes_remote_peer_id_witness:
  "ovpn_crypto_state_select_family ovpn_crypto_state_init S1_pkr = (RET_OK, cs_aead) \<and>
   cs_valid cs_aead ks_mem_empty \<and>
   ovpn_crypto_state_reset aead_tables cs_aead ks_mem_empty S1_pkr = Some (RET_OK, S1_cs, S1_mem) \<and>
   ovpn_crypto_state_reset_steps aead_tables cs_aead ks_mem_empty S1_pkr =
     [(cs_aead, \<lparr>ks_heap = [Some (S1_slot\<lparr>ks_remote_peer_id := 0\<rparr>)], rcu_pending = []\<rparr>),
      (cs_aead, S1_mem), (S1_cs, S1_mem)] \<and>
   primary cs_aead = None \<and> primary S1_cs = Some 0 \<and>
   ks_at S1_mem 0 = Some S1_slot \<and>
   ks_remote_peer_id S1_slot = 2 \<and>
   crypto_state_lookup S1_cs S1_mem 1 = Inr (0, ks_hold S1_mem 0) \<and>
   ks_at (ks_hold S1_mem 0) 0 = Some (S1_slot\<lparr>ks_refcount := 2\<rparr>) \<and>
   ks_remote_peer_id (S1_slot\<lparr>ks_refcount := 2\<rparr>) = 2"
proof -
  have valid: "cs_valid cs_aead ks_mem_empty"
    by (simp add: cs_valid_def ks_ptr_valid_def cs_aead_def ovpn_crypto_state_init_def)
  have kid: "\<forall>ops ks0. aead_tables ops (key S1_pkr) = Inr ks0 \<longrightarrow> ks_key_id ks0 = key_id (key S1_pkr)"
    using aead_tables_key_id by blast
  have look: "crypto_state_lookup S1_cs S1_mem 1 = Inr (0, ks_hold S1_mem 0)"
    by (simp add: crypto_state_lookup_def slot_with_key_def S1_cs_def S1_mem_def ks_at_def
        S1_slot_def)
  have held: "ks_at (ks_hold S1_mem 0) 0 = Some (S1_slot\<lparr>ks_refcount := 2\<rparr>)"
    by (simp add: ks_hold_def ks_store_def S1_mem_def ks_at_def S1_slot_def)
  have prim: "primary cs_aead = None" "primary S1_cs = Some 0"
    by (simp_all add: cs_aead_def S1_cs_def ovpn_crypto_state_init_def)
  have steps: "ovpn_crypto_state_reset_steps aead_tables cs_aead ks_mem_empty S1_pkr =
     [(cs_aead, \<lparr>ks_heap = [Some (S1_slot\<lparr>ks_remote_peer_id := 0\<rparr>)], rcu_pending = []\<rparr>),
      (cs_aead, S1_mem), (S1_cs, S1_mem)]"
    by (simp add: ovpn_crypto_state_reset_steps_def ovpn_ks_new_def S1_pkr_fields aead_tables_K1
        cs_aead_def ovpn_crypto_state_init_def ks_mem_empty_def ks_alloc_def
        ks_set_remote_peer_id_def ks_at_def ks_store_def reset_put_old_steps_def S1_cs_def
        S1_mem_def S1_slot_def Let_def)
  show ?thesis
    using reset_publishes_remote_peer_id [OF S1_reset] valid kid S1_select S1_reset look held prim steps
    by (simp add: S1_mem_def ks_at_def S1_slot_def)
qed

section \<open>Properties of peers\<close>

subsection \<open>Reference counting\<close>

lemma put_fields:
  "refcount (ovpn_peer_put p) = refcount p - 1"
  "halt (ovpn_peer_put p) = halt p"
  "tx_ring (ovpn_peer_put p) = tx_ring p"
  "rx_ring (ovpn_peer_put p) = rx_ring p"
  "keepalive_xmit (ovpn_peer_put p) = keepalive_xmit p"
  "keepalive_expire (ovpn_peer_put p) = keepalive_expire p"
  by (simp_all add: ovpn_peer_put_def ovpn_peer_release_kref_def Let_def)

lemma delete_halts: "halt (ovpn_peer_delete p)"
  by (simp add: ovpn_peer_delete_def put_fields)

lemma delete_twice: "ovpn_peer_delete (ovpn_peer_delete p) = ovpn_peer_delete p"
  using delete_halts [of p] by (simp add: ovpn_peer_delete_def [of "ovpn_peer_delete p"])

lemma delete_funpow: "(ovpn_peer_delete ^^ Suc n) p = ovpn_peer_delete p"
  by (induction n) (simp_all add: delete_twice)

text \<open>
  Claim C7. \<^verbatim>\<open>ovpn_peer_delete\<close> is idempotent. On a peer that is not halted it sets
  \<open>halt\<close> and lowers the reference count by exactly one; on a halted peer it changes
  nothing at all; so any number of calls, one or more, leaves the peer as the first call
  left it, and the count has been lowered once.
\<close>

theorem peer_delete_idempotent:
  "(\<not> halt p \<longrightarrow> halt (ovpn_peer_delete p) \<and> refcount (ovpn_peer_delete p) = refcount p - 1) \<and>
   (halt p \<longrightarrow> ovpn_peer_delete p = p) \<and>
   (ovpn_peer_delete ^^ Suc n) p = ovpn_peer_delete p"
  using delete_funpow [of n p] by (simp add: ovpn_peer_delete_def put_fields)

theorem peer_delete_idempotent_witness:
  "\<not> halt peer_init \<and> refcount peer_init = 1 \<and>
   halt (ovpn_peer_delete peer_init) \<and> refcount (ovpn_peer_delete peer_init) = 0 \<and>
   ovpn_peer_delete (ovpn_peer_delete peer_init) = ovpn_peer_delete peer_init \<and>
   (ovpn_peer_delete ^^ 3) peer_init = ovpn_peer_delete peer_init"
proof -
  have init: "\<not> halt peer_init" "refcount peer_init = 1"
    by (simp_all add: peer_init_def)
  have three: "(3::nat) = Suc 2" by simp
  show ?thesis
    using peer_delete_idempotent [of peer_init 2]
      peer_delete_idempotent [of "ovpn_peer_delete peer_init" 0] init
    unfolding three by simp
qed

subsection \<open>Timers\<close>

lemma timer_update_same [simp]: "peer_timer (peer_timer_update p t tm) t = tm"
  by (cases t) (simp_all add: peer_timer_def peer_timer_update_def)

lemma timer_update_refcount [simp]: "refcount (peer_timer_update p t tm) = refcount p"
  by (cases t) (simp_all add: peer_timer_update_def)

lemma timer_of_refcount_update [simp]: "peer_timer (p\<lparr>refcount := r\<rparr>) t = peer_timer p t"
  by (cases t) (simp_all add: peer_timer_def)

lemma put_timer [simp]: "peer_timer (ovpn_peer_put p) t = peer_timer p t"
  by (cases t) (simp_all add: peer_timer_def put_fields)

lemma timer_update_id [simp]: "peer_timer_update p t (peer_timer p t) = p"
  by (cases t) (simp_all add: peer_timer_def peer_timer_update_def)

lemma timer_update_twice [simp]:
  "peer_timer_update (peer_timer_update p t a) t b = peer_timer_update p t b"
  by (cases t) (simp_all add: peer_timer_update_def)


text \<open>What a helper that keeps the contract does, case by case.\<close>

lemma contract_armed:
  assumes "timer_schedule_contract f" "armed t"
  shows "f t = (True, t)"
proof -
  from assms have "fst (f t)" "armed (snd (f t))" "period (snd (f t)) = period t"
    by (simp_all add: timer_schedule_contract_def)
  with assms(2) show ?thesis
    by (cases "f t"; cases t; cases "snd (f t)") auto
qed








text \<open>
  The contract is what the count depends on. With the helper that disarms on the spot,
  setting the keepalive to (1, 3) on a new peer and then to (0, 0) leaves both timers
  disarmed and the count at 3: a (re)schedule with delta 0 can add a reference and
  cannot drop one.
\<close>

lemma disarm_at_once_breaks_contract: "\<not> timer_schedule_contract schedule_disarm_at_once"
proof
  assume "timer_schedule_contract schedule_disarm_at_once"
  from contract_armed [OF this, of "\<lparr>period = 0, armed = True\<rparr>"] show False
    by (simp add: schedule_disarm_at_once_def)
qed

lemma disarm_at_once_keeps_references:
  "refcount (ovpn_peer_set_keepalive schedule_disarm_at_once peer_init 1 3) = 3 \<and>
   armed (keepalive_xmit (ovpn_peer_set_keepalive schedule_disarm_at_once peer_init 1 3)) \<and>
   armed (keepalive_expire (ovpn_peer_set_keepalive schedule_disarm_at_once peer_init 1 3)) \<and>
   \<not> armed (keepalive_xmit (ovpn_peer_set_keepalive schedule_disarm_at_once
       (ovpn_peer_set_keepalive schedule_disarm_at_once peer_init 1 3) 0 0)) \<and>
   \<not> armed (keepalive_expire (ovpn_peer_set_keepalive schedule_disarm_at_once
       (ovpn_peer_set_keepalive schedule_disarm_at_once peer_init 1 3) 0 0)) \<and>
   refcount (ovpn_peer_set_keepalive schedule_disarm_at_once
       (ovpn_peer_set_keepalive schedule_disarm_at_once peer_init 1 3) 0 0) = 3"
  by (simp add: ovpn_peer_set_keepalive_def ovpn_peer_timer_schedule_def
      schedule_disarm_at_once_def ovpn_timer_set_period_def ovpn_peer_hold_def
      ovpn_timer_delete_def peer_timer_def peer_timer_update_def peer_init_def
      ovpn_timer_init_def Let_def)



subsection \<open>Release\<close>












text \<open>
  The release is defined only for the layout in which \<^verbatim>\<open>crypto\<close> is the first member of
  \<^verbatim>\<open>struct ovpn_peer\<close>.
\<close>

lemma peer_release_rcu_layout:
  "crypto_offset \<noteq> 0 \<Longrightarrow> ovpn_peer_release_rcu crypto_offset p k = None"
  by (simp add: ovpn_peer_release_rcu_def ovpn_peer_release_rcu_steps_def)

subsection \<open>Construction\<close>

text \<open>Whenever \<^verbatim>\<open>ovpn_peer_new\<close> does not return a peer, every allocation it made is undone.\<close>

lemma peer_new_unwinds:
  assumes "ovpn_peer_new env k = (r, k')" and "r = NULL \<or> IS_ERR r"
  shows "k' = k"
  using assms
  by (auto simp: ovpn_peer_new_def kalloc_def kfree_def ptr_ring_cleanup_def IS_ERR_def Let_def
      split: if_splits)

text \<open>
  Claim C5 fails on the code. When the initialisation of the TX ring or of the RX ring
  fails, \<^verbatim>\<open>ovpn_peer_new\<close> returns \<^verbatim>\<open>NULL\<close>, where a failed \<^verbatim>\<open>kmalloc\<close> returns
  \<^verbatim>\<open>ERR_PTR(-ENOMEM)\<close>; every allocation is unwound in all three cases. \<^verbatim>\<open>NULL\<close> is no
  error pointer, so \<^verbatim>\<open>ovpn_peer_new_with_sockaddr\<close> goes on and dereferences it.
\<close>

theorem peer_new_ring_failure_returns_null:
  "ovpn_peer_new (env_ok\<lparr>tx_ring_init := - 12\<rparr>) kernel0 = (NULL, kernel0) \<and>
   ovpn_peer_new (env_ok\<lparr>rx_ring_init := - 12\<rparr>) kernel0 = (NULL, kernel0) \<and>
   ovpn_peer_new (env_ok\<lparr>kmalloc_peer := False\<rparr>) kernel0 = (ERR_PTR ENOMEM, kernel0) \<and>
   \<not> IS_ERR (NULL :: ovpn_peer ptr) \<and>
   ovpn_peer_new_with_sockaddr (env_ok\<lparr>tx_ring_init := - 12\<rparr>) sapair0 kernel0 = None \<and>
   ovpn_peer_new_with_sockaddr (env_ok\<lparr>kmalloc_peer := False\<rparr>) sapair0 kernel0 =
     Some (ERR_PTR ENOMEM, kernel0)"
  by (simp add: ovpn_peer_new_def ovpn_peer_new_with_sockaddr_def env_ok_def kernel0_def
      kalloc_def kfree_def ptr_ring_cleanup_def IS_ERR_def)

end
